theory Spec2Isabelle
  imports Main
begin

section \<open>Python string primitives used by \<open>coursera.py\<close>\<close>

text \<open>
  Strings are lists of 8-bit code points. The validator only uses three string operations
  of Python: \<open>str.split()\<close> without arguments, \<open>str.lstrip(chars)\<close> and the
  conversion \<open>int(str)\<close>. They are modelled with the semantics of Python 3 (CPython
  3.11 or later) on code points below 256.
\<close>

text \<open>\<open>str.isspace\<close> on one code point: TAB, LF, VT, FF, CR, FS, GS, RS, US, SPACE, NEL
  and NBSP.\<close>

definition isspace :: "char \<Rightarrow> bool" where
  "isspace c = (c \<in> set [CHR 0x09, CHR 0x0A, CHR 0x0B, CHR 0x0C, CHR 0x0D,
                          CHR 0x1C, CHR 0x1D, CHR 0x1E, CHR 0x1F, CHR 0x20,
                          CHR 0x85, CHR 0xA0])"

text \<open>\<open>s.split()\<close>: the maximal runs of non-whitespace characters, left to right. The
  first argument of \<open>split_from\<close> is the token read so far.\<close>

fun split_from :: "string \<Rightarrow> string \<Rightarrow> string list" where
  "split_from tok [] = (if tok = [] then [] else [tok])"
| "split_from tok (c # cs) =
     (if isspace c then (if tok = [] then split_from [] cs else tok # split_from [] cs)
      else split_from (tok @ [c]) cs)"

definition py_split :: "string \<Rightarrow> string list" where
  "py_split s = split_from [] s"

text \<open>\<open>s.lstrip(chars)\<close> removes every leading character that occurs in \<open>chars\<close>.\<close>

definition lstrip :: "string \<Rightarrow> string \<Rightarrow> string" where
  "lstrip chars s = dropWhile (\<lambda>c. c \<in> set chars) s"

text \<open>
  The whitespace that \<open>int\<close> skips at both ends of its argument is not that of
  \<open>str.isspace\<close>: CPython skips the six characters of C's \<open>isspace\<close> (TAB, LF, VT, FF,
  CR, SPACE) and, having first turned every whitespace code point above 127 into a space,
  NEL and NBSP; the separators FS, GS, RS and US are not skipped and make the conversion
  fail.
\<close>

definition is_int_space :: "char \<Rightarrow> bool" where
  "is_int_space c = (c \<in> set [CHR 0x09, CHR 0x0A, CHR 0x0B, CHR 0x0C, CHR 0x0D, CHR 0x20,
                               CHR 0x85, CHR 0xA0])"

definition int_strip :: "string \<Rightarrow> string" where
  "int_strip s = rev (dropWhile is_int_space (rev (dropWhile is_int_space s)))"

text \<open>CPython (3.11 and later, by default) refuses to convert a string of more than 4300
  digits.\<close>

definition max_str_digits :: nat where
  "max_str_digits = 4300"

definition digit_val :: "char \<Rightarrow> nat option" where
  "digit_val =
     map_of [(CHR ''0'', 0), (CHR ''1'', 1), (CHR ''2'', 2), (CHR ''3'', 3), (CHR ''4'', 4),
             (CHR ''5'', 5), (CHR ''6'', 6), (CHR ''7'', 7), (CHR ''8'', 8), (CHR ''9'', 9)]"

text \<open>The digits after the first one; a single underscore may stand between two digits.\<close>

fun py_digits :: "nat \<Rightarrow> string \<Rightarrow> nat option" where
  "py_digits acc [] = Some acc"
| "py_digits acc [c] =
     (case digit_val c of Some d \<Rightarrow> Some (10 * acc + d) | None \<Rightarrow> None)"
| "py_digits acc (c # c' # cs) =
     (case digit_val c of
        Some d \<Rightarrow> py_digits (10 * acc + d) (c' # cs)
      | None \<Rightarrow>
          (if c = CHR ''_'' then
             (case digit_val c' of
                Some d \<Rightarrow> py_digits (10 * acc + d) cs
              | None \<Rightarrow> None)
           else None))"

text \<open>A sign-free literal: a digit first, and not more digits than the limit allows
  (underscores do not count).\<close>

definition unsigned :: "string \<Rightarrow> nat option" where
  "unsigned s =
     (case s of
        [] \<Rightarrow> None
      | c # cs \<Rightarrow>
          (case digit_val c of
             Some d \<Rightarrow>
               (if max_str_digits < length (filter (\<lambda>x. digit_val x \<noteq> None) s) then None
                else py_digits d cs)
           | None \<Rightarrow> None))"

text \<open>\<open>int(s)\<close> in base ten: \<open>None\<close> stands for \<open>ValueError\<close>.\<close>

definition py_int :: "string \<Rightarrow> int option" where
  "py_int s =
     (case int_strip s of
        [] \<Rightarrow> None
      | c # cs \<Rightarrow>
          (if c = CHR ''-'' then map_option (\<lambda>n. - int n) (unsigned cs)
           else if c = CHR ''+'' then map_option int (unsigned cs)
           else map_option int (unsigned (c # cs))))"

text \<open>The list comprehension \<open>[int(x) for x in tokens]\<close>: the first token that does not
  convert raises, and no list is built.\<close>

fun ints_of :: "string list \<Rightarrow> int list option" where
  "ints_of [] = Some []"
| "ints_of (t # ts) =
     (case py_int t of
        None \<Rightarrow> None
      | Some n \<Rightarrow> (case ints_of ts of None \<Rightarrow> None | Some ns \<Rightarrow> Some (n # ns)))"

section \<open>The argument record\<close>

text \<open>
  \<open>argparse\<close> returns a namespace with one attribute per \<open>dest\<close>. Python attributes are
  untyped: \<open>validate_args\<close> replaces the strings \<open>sections\<close>, \<open>formats\<close> and
  \<open>skip_formats\<close> by lists, so these three fields hold a dynamically typed value.
  \<open>netrc\<close> is \<open>None\<close>, \<open>True\<close> (the \<open>const\<close> of a bare \<open>--netrc\<close>) or a path.
\<close>

datatype pyval = Str string | IntList "int list" | StrList "string list"

datatype netrc_val = NetrcNone | NetrcTrue | NetrcFile string

record args =
  course :: "string list"
  preview :: bool
  about :: bool
  reverse :: bool
  parser :: string
  proxy :: "string option"
  hooks :: "string list"
  playlist :: bool
  username :: "string option"
  password :: "string option"
  netrc :: netrc_val
  sections :: pyval
  formats :: pyval
  skip_formats :: pyval
  section_filter :: "string option"
  lecture_filter :: "string option"
  resource_filter :: "string option"
  destination :: string
  "output" :: string
  archive :: bool
  overwrite :: bool
  max_filename_length :: int
  wget :: "string option"
  curl :: "string option"
  aria2 :: "string option"
  axel :: "string option"
  cookies :: "string option"
  lectures_page :: "string option"
  skip_download :: bool
  simulate :: bool
  debug :: bool
  quiet :: bool
  cache_dir :: "string option"
  no_cache_dir :: bool
  clear_cache :: bool

text \<open>The values \<open>parse_args\<close> gives when no option is on the command line.\<close>

definition default_args :: args where
  "default_args =
     \<lparr> course = [], preview = False, about = False, reverse = False,
       parser = ''html5lib'', proxy = None, hooks = [], playlist = False,
       username = None, password = None, netrc = NetrcNone,
       sections = Str [], formats = Str [], skip_formats = Str [],
       section_filter = None, lecture_filter = None, resource_filter = None,
       destination = ''.'', output = ''.'', archive = False, overwrite = False,
       max_filename_length = 100,
       wget = None, curl = None, aria2 = None, axel = None,
       cookies = None, lectures_page = None, skip_download = False,
       simulate = False, debug = False, quiet = False,
       cache_dir = None, no_cache_dir = False, clear_cache = False \<rparr>"

section \<open>Errors, effects and the environment\<close>

text \<open>
  \<open>SysExit n\<close> is \<open>sys.exit(n)\<close>; \<open>AttributeError\<close> is the exception Python raises
  for \<open>.split()\<close> on a list, which nothing catches outside the \<open>try\<close> block of the
  sections check (the interpreter then ends with status 1).
\<close>

datatype error = SysExit nat | AttributeError

fun exit_status :: "error \<Rightarrow> nat" where
  "exit_status (SysExit n) = n"
| "exit_status AttributeError = 1"

text \<open>
  The messages handed to \<open>logging\<close>, one constructor per call site of \<open>validate_args\<close>:
  the warning about \<open>html.parser\<close>, "Invalid parser: ...", "Invalid sections list, this
  should be a list of integers.", "Cookies file not found: ...", "No credentials found in
  .netrc file", "Credentials found in .netrc file", "Please provide a username with the
  -u option, or a .netrc file with the -n option." and the banner "Coursera-dl v... (parser)"
  of \<open>main\<close>.
\<close>

datatype diagnostic =
    HtmlParserWarning
  | InvalidParser string
  | InvalidSections
  | CookiesNotFound string
  | NetrcNoCredentials
  | NetrcFound
  | MissingUsername
  | Banner string

text \<open>What a run does to the outside world, in order: it logs, asks the file system whether
  a path exists, calls \<open>netrc_credentials\<close>, or prompts with \<open>getpass.getpass\<close>.\<close>

datatype event =
    LogInfo diagnostic
  | LogError diagnostic
  | PathExists string
  | NetrcLookup "string option"
  | GetPass string

text \<open>
  What the outside world answers. \<open>netrc_credentials\<close> lives in the module \<open>utils\<close>; it is
  a parameter here: given a path or \<open>None\<close> it returns a pair of user name and password,
  or \<open>None\<close>.
\<close>

record env =
  version_info :: "nat \<times> nat \<times> nat"
  path_exists :: "string \<Rightarrow> bool"
  netrc_credentials :: "string option \<Rightarrow> (string \<times> string) option"
  getpass :: "string \<Rightarrow> string"

text \<open>Python compares tuples lexicographically.\<close>

fun version_lt :: "nat \<times> nat \<times> nat \<Rightarrow> nat \<times> nat \<times> nat \<Rightarrow> bool" where
  "version_lt (a, b, c) (x, y, z) = (a < x \<or> (a = x \<and> (b < y \<or> (b = y \<and> c < z))))"

section \<open>\<open>validate_args\<close>\<close>

text \<open>Truth value testing of an optional string: \<open>None\<close> and the empty string are false.
  The result is the string when it is true.\<close>

fun truthy :: "string option \<Rightarrow> string option" where
  "truthy None = None"
| "truthy (Some s) = (if s = [] then None else Some s)"

text \<open>\<open>if args.netrc\<close>, and the argument \<open>None if args.netrc is True else args.netrc\<close>
  of the call when the test holds.\<close>

fun netrc_arg :: "netrc_val \<Rightarrow> string option option" where
  "netrc_arg NetrcNone = None"
| "netrc_arg NetrcTrue = Some None"
| "netrc_arg (NetrcFile p) = (if p = [] then None else Some (Some p))"

text \<open>\<open>[int(x) for x in args.sections.split()]\<close> inside \<open>try\<close>: \<open>None\<close> when any
  exception is raised, which includes the missing \<open>split\<close> attribute of a list.\<close>

fun sections_list :: "pyval \<Rightarrow> int list option" where
  "sections_list (Str s) = ints_of (py_split s)"
| "sections_list (IntList ns) = None"
| "sections_list (StrList ss) = None"

text \<open>\<open>[s.lstrip('.') for s in v.split()]\<close>: \<open>None\<close> is the \<open>AttributeError\<close> of a
  list.\<close>

fun format_list :: "pyval \<Rightarrow> string list option" where
  "format_list (Str s) = Some (map (lstrip ''.'') (py_split s))"
| "format_list (IntList ns) = None"
| "format_list (StrList ss) = None"

definition prompt :: "string \<Rightarrow> string" where
  "prompt u = ''Coursera password for '' @ u @ '': ''"

text \<open>The last statement of \<open>validate_args\<close>, from \<open>if args.cookies:\<close> on.\<close>

definition credentials :: "env \<Rightarrow> args \<Rightarrow> event list \<times> (error + args)" where
  "credentials e a =
     (case truthy (cookies a) of
        Some c \<Rightarrow>
          (if path_exists e c then ([PathExists c], Inr a)
           else ([PathExists c, LogError (CookiesNotFound c)], Inl (SysExit 1)))
      | None \<Rightarrow>
          (case netrc_arg (netrc a) of
             Some file \<Rightarrow>
               (case netrc_credentials e file of
                  None \<Rightarrow> ([NetrcLookup file, LogError NetrcNoCredentials], Inl (SysExit 1))
                | Some (u, p) \<Rightarrow>
                    ([NetrcLookup file, LogInfo NetrcFound],
                     Inr (a\<lparr>username := Some u, password := Some p\<rparr>)))
           | None \<Rightarrow>
               (case truthy (username a) of
                  None \<Rightarrow> ([LogError MissingUsername], Inl (SysExit 1))
                | Some u \<Rightarrow>
                    (case truthy (password a) of
                       Some p \<Rightarrow> ([], Inr a)
                     | None \<Rightarrow>
                         ([GetPass (prompt u)],
                          Inr (a\<lparr>password := Some (getpass e (prompt u))\<rparr>))))))"

text \<open>The warning of the first statement; it does not stop the run.\<close>

definition parser_warning :: "env \<Rightarrow> args \<Rightarrow> event list" where
  "parser_warning e a =
     (if parser a = ''html.parser'' \<and> version_lt (version_info e) (2, 7, 3)
      then [LogInfo HtmlParserWarning] else [])"

definition validate_args :: "env \<Rightarrow> args \<Rightarrow> event list \<times> (error + args)" where
  "validate_args e a =
     (if parser a \<notin> set [''html5lib'', ''html.parser'', ''lxml''] then
        (parser_warning e a @ [LogError (InvalidParser (parser a))], Inl (SysExit 1))
      else
        (case sections_list (sections a) of
           None \<Rightarrow> (parser_warning e a @ [LogError InvalidSections], Inl (SysExit 1))
         | Some ns \<Rightarrow>
             (case format_list (formats a) of
                None \<Rightarrow> (parser_warning e a, Inl AttributeError)
              | Some fs \<Rightarrow>
                  (case format_list (skip_formats a) of
                     None \<Rightarrow> (parser_warning e a, Inl AttributeError)
                   | Some ks \<Rightarrow>
                       (case credentials e
                               (a\<lparr>sections := IntList ns, formats := StrList fs,
                                  skip_formats := StrList ks\<rparr>) of
                          (tr, r) \<Rightarrow> (parser_warning e a @ tr, r))))))"

section \<open>\<open>parse_args\<close> and \<open>main\<close>\<close>

text \<open>
  The command line as \<open>argparse\<close> sees it after tokenising: the positional course names
  and the occurrences of options, left to right, each with the value it was given. An
  option declared with \<open>nargs='?'\<close> carries an optional value.
\<close>

datatype cli_opt =
    Help | Version
  | Preview | DownloadAbout | Reverse
  | Parser string | Proxy string | Hooks string | Playlist
  | Username string | Password string | Netrc "string option"
  | Sections string | Formats string | SkipFormats string
  | SectionFilter string | LectureFilter string | ResourceFilter string
  | Destination string | Output string | Archive | Overwrite
  | MaxFilenameLength string
  | Wget "string option" | Curl "string option" | Aria2 "string option"
  | Axel "string option"
  | Cookies string | LecturesPage string | SkipDownload | Simulate | Debug | Quiet
  | CacheDir string | NoCacheDir | ClearCache

text \<open>One option occurrence: \<open>store\<close> overwrites, \<open>store_true\<close> sets the flag,
  \<open>append\<close> extends the list, a bare \<open>nargs='?'\<close> option stores its \<open>const\<close>.
  \<open>--help\<close> and \<open>--version\<close> print and exit with status 0; a value that \<open>type=int\<close>
  rejects is a usage error, status 2.\<close>

fun apply_opt :: "cli_opt \<Rightarrow> args \<Rightarrow> error + args" where
  "apply_opt Help a = Inl (SysExit 0)"
| "apply_opt Version a = Inl (SysExit 0)"
| "apply_opt Preview a = Inr (a\<lparr>preview := True\<rparr>)"
| "apply_opt DownloadAbout a = Inr (a\<lparr>about := True\<rparr>)"
| "apply_opt Reverse a = Inr (a\<lparr>reverse := True\<rparr>)"
| "apply_opt (Parser v) a = Inr (a\<lparr>parser := v\<rparr>)"
| "apply_opt (Proxy v) a = Inr (a\<lparr>proxy := Some v\<rparr>)"
| "apply_opt (Hooks v) a = Inr (a\<lparr>hooks := hooks a @ [v]\<rparr>)"
| "apply_opt Playlist a = Inr (a\<lparr>playlist := True\<rparr>)"
| "apply_opt (Username v) a = Inr (a\<lparr>username := Some v\<rparr>)"
| "apply_opt (Password v) a = Inr (a\<lparr>password := Some v\<rparr>)"
| "apply_opt (Netrc None) a = Inr (a\<lparr>netrc := NetrcTrue\<rparr>)"
| "apply_opt (Netrc (Some v)) a = Inr (a\<lparr>netrc := NetrcFile v\<rparr>)"
| "apply_opt (Sections v) a = Inr (a\<lparr>sections := Str v\<rparr>)"
| "apply_opt (Formats v) a = Inr (a\<lparr>formats := Str v\<rparr>)"
| "apply_opt (SkipFormats v) a = Inr (a\<lparr>skip_formats := Str v\<rparr>)"
| "apply_opt (SectionFilter v) a = Inr (a\<lparr>section_filter := Some v\<rparr>)"
| "apply_opt (LectureFilter v) a = Inr (a\<lparr>lecture_filter := Some v\<rparr>)"
| "apply_opt (ResourceFilter v) a = Inr (a\<lparr>resource_filter := Some v\<rparr>)"
| "apply_opt (Destination v) a = Inr (a\<lparr>destination := v\<rparr>)"
| "apply_opt (Output v) a = Inr (a\<lparr>output := v\<rparr>)"
| "apply_opt Archive a = Inr (a\<lparr>archive := True\<rparr>)"
| "apply_opt Overwrite a = Inr (a\<lparr>overwrite := True\<rparr>)"
| "apply_opt (MaxFilenameLength v) a =
     (case py_int v of
        None \<Rightarrow> Inl (SysExit 2)
      | Some n \<Rightarrow> Inr (a\<lparr>max_filename_length := n\<rparr>))"
| "apply_opt (Wget None) a = Inr (a\<lparr>wget := Some ''wget''\<rparr>)"
| "apply_opt (Wget (Some v)) a = Inr (a\<lparr>wget := Some v\<rparr>)"
| "apply_opt (Curl None) a = Inr (a\<lparr>curl := Some ''curl''\<rparr>)"
| "apply_opt (Curl (Some v)) a = Inr (a\<lparr>curl := Some v\<rparr>)"
| "apply_opt (Aria2 None) a = Inr (a\<lparr>aria2 := Some ''aria2c''\<rparr>)"
| "apply_opt (Aria2 (Some v)) a = Inr (a\<lparr>aria2 := Some v\<rparr>)"
| "apply_opt (Axel None) a = Inr (a\<lparr>axel := Some ''axel''\<rparr>)"
| "apply_opt (Axel (Some v)) a = Inr (a\<lparr>axel := Some v\<rparr>)"
| "apply_opt (Cookies v) a = Inr (a\<lparr>cookies := Some v\<rparr>)"
| "apply_opt (LecturesPage v) a = Inr (a\<lparr>lectures_page := Some v\<rparr>)"
| "apply_opt SkipDownload a = Inr (a\<lparr>skip_download := True\<rparr>)"
| "apply_opt Simulate a = Inr (a\<lparr>simulate := True\<rparr>)"
| "apply_opt Debug a = Inr (a\<lparr>debug := True\<rparr>)"
| "apply_opt Quiet a = Inr (a\<lparr>quiet := True\<rparr>)"
| "apply_opt (CacheDir v) a = Inr (a\<lparr>cache_dir := Some v\<rparr>)"
| "apply_opt NoCacheDir a = Inr (a\<lparr>no_cache_dir := True\<rparr>)"
| "apply_opt ClearCache a = Inr (a\<lparr>clear_cache := True\<rparr>)"

fun apply_opts :: "cli_opt list \<Rightarrow> args \<Rightarrow> error + args" where
  "apply_opts [] a = Inr a"
| "apply_opts (x # xs) a =
     (case apply_opt x a of Inl err \<Rightarrow> Inl err | Inr a' \<Rightarrow> apply_opts xs a')"

definition parse_args :: "string list \<Rightarrow> cli_opt list \<Rightarrow> error + args" where
  "parse_args courses opts = apply_opts opts (default_args\<lparr>course := courses\<rparr>)"

text \<open>\<open>main\<close>: the events of the run and the exit status of the process. The last call
  logs the banner with the parser's name.\<close>

definition main :: "env \<Rightarrow> string list \<Rightarrow> cli_opt list \<Rightarrow> event list \<times> nat" where
  "main e courses opts =
     (case parse_args courses opts of
        Inl err \<Rightarrow> ([], exit_status err)
      | Inr a \<Rightarrow>
          (case validate_args e a of
             (tr, Inl err) \<Rightarrow> (tr, exit_status err)
           | (tr, Inr a') \<Rightarrow> (tr @ [LogInfo (Banner (parser a'))], 0)))"

section \<open>Example runs\<close>

text \<open>An environment in which \<open>cookies.txt\<close> is the only file that exists, the default
  netrc file has an entry, and the operator types \<open>typed\<close> at the prompt.\<close>

definition env_example :: env where
  "env_example =
     \<lparr> version_info = (3, 8, 0),
       path_exists = (\<lambda>p. p = ''cookies.txt''),
       netrc_credentials = (\<lambda>f. if f = None then Some (''bob'', ''hunter2'') else None),
       getpass = (\<lambda>p. ''typed'') \<rparr>"

text \<open>\<open>coursera-dl -u alice --sections "1 3 8" -f "mp4 .pdf srt" ml-001\<close>\<close>

definition args_example :: args where
  "args_example =
     default_args\<lparr>course := [''ml-001''], username := Some ''alice'',
                  sections := Str ''1 3 8'', formats := Str ''mp4 .pdf srt''\<rparr>"

definition result_example :: args where
  "result_example =
     args_example\<lparr>sections := IntList [1, 3, 8],
                  formats := StrList [''mp4'', ''pdf'', ''srt''],
                  skip_formats := StrList [],
                  password := Some ''typed''\<rparr>"

text \<open>\<open>coursera-dl -u alice -p pw ml-001\<close> with further options: two download
  backends, a maximal file name length of zero, a section filter that is no regular
  expression.\<close>

definition args_password :: args where
  "args_password =
     default_args\<lparr>course := [''ml-001''], username := Some ''alice'', password := Some ''pw''\<rparr>"

definition two_backends :: args where
  "two_backends = args_password\<lparr>wget := Some ''wget'', curl := Some ''curl''\<rparr>"

definition zero_length :: args where
  "zero_length = args_password\<lparr>max_filename_length := 0\<rparr>"

definition open_paren_filter :: args where
  "open_paren_filter = args_password\<lparr>section_filter := Some ''(''\<rparr>"

text \<open>\<open>--cookies\<close> together with \<open>--netrc\<close>: a cookies file that exists and one that
  does not.\<close>

definition cookies_and_netrc :: args where
  "cookies_and_netrc = args_example\<lparr>cookies := Some ''cookies.txt'', netrc := NetrcTrue\<rparr>"

definition missing_cookies :: args where
  "missing_cookies = args_example\<lparr>cookies := Some ''missing.txt'', netrc := NetrcTrue\<rparr>"

text \<open>\<open>--cookies ""\<close> together with a bare \<open>--netrc\<close>.\<close>

definition empty_cookies_netrc :: args where
  "empty_cookies_netrc = default_args\<lparr>cookies := Some [], netrc := NetrcTrue\<rparr>"

text \<open>A run without credentials whose parser name is not known.\<close>

definition no_credentials_bogus :: args where
  "no_credentials_bogus = default_args\<lparr>parser := ''bogus''\<rparr>"

text \<open>\<open>--sections "1 1"\<close> and \<open>--formats "..pdf"\<close>.\<close>

definition duplicate_sections :: args where
  "duplicate_sections = args_password\<lparr>sections := Str ''1 1''\<rparr>"

definition double_dot :: args where
  "double_dot = args_password\<lparr>formats := Str ''..pdf''\<rparr>"

text \<open>Well-formed \<open>--sections\<close> and \<open>--formats\<close> on a run without credentials.\<close>

definition lists_no_username :: args where
  "lists_no_username = default_args\<lparr>sections := Str ''1 3 8'', formats := Str ''mp4 .pdf srt''\<rparr>"

text \<open>The lists an empty \<open>--sections\<close>, \<open>--formats\<close> and \<open>--skip-formats\<close> become.\<close>

definition empty_lists :: "args \<Rightarrow> args" where
  "empty_lists a = a\<lparr>sections := IntList [], formats := StrList [], skip_formats := StrList []\<rparr>"

section \<open>Comparing two runs\<close>

text \<open>\<open>on_result f\<close> applies \<open>f\<close> to the record a successful run returns and leaves the
  events and a failure as they are.\<close>

fun on_result ::
  "(args \<Rightarrow> args) \<Rightarrow> event list \<times> (error + args) \<Rightarrow> event list \<times> (error + args)" where
  "on_result f (tr, Inl err) = (tr, Inl err)"
| "on_result f (tr, Inr b) = (tr, Inr (f b))"

text \<open>The record of a successful run with \<open>--username ""\<close> (with \<open>--password ""\<close>),
  from the record of the same run without the option: the field is the empty string
  where the run left it unset.\<close>

definition empty_username :: "args \<Rightarrow> args" where
  "empty_username b = (if username b = None then b\<lparr>username := Some []\<rparr> else b)"

definition empty_password :: "args \<Rightarrow> args" where
  "empty_password b = (if password b = None then b\<lparr>password := Some []\<rparr> else b)"

text \<open>The record as it stands when the credentials block is reached: the three strings
  replaced by their lists (lines 299, 306 and 307 of the source). A field that did not
  convert is left as it is; the run has then stopped before the credentials.\<close>

definition compiled :: "args \<Rightarrow> args" where
  "compiled a =
     a\<lparr>sections := (case sections_list (sections a) of Some ns \<Rightarrow> IntList ns
                     | None \<Rightarrow> sections a),
       formats := (case format_list (formats a) of Some fs \<Rightarrow> StrList fs
                   | None \<Rightarrow> formats a),
       skip_formats := (case format_list (skip_formats a) of Some ks \<Rightarrow> StrList ks
                        | None \<Rightarrow> skip_formats a)\<rparr>"

text \<open>What the specification asks of a format token, in its words ("strip at most one
  leading '.' per token"); the source's comment says the same ("remove prefixing dot if
  there is one"). It is stated here to be compared with \<open>lstrip\<close>, which the code calls.\<close>

fun spec_strip_one_dot :: "string \<Rightarrow> string" where
  "spec_strip_one_dot [] = []"
| "spec_strip_one_dot (c # cs) = (if c = CHR ''.'' then cs else c # cs)"

section \<open>The paths through \<open>validate_args\<close>\<close>

text \<open>Every run of \<open>validate_args\<close> takes one of four paths, and the credentials
  block one of seven. The two rules below list them with the events and the result of
  each; the properties that follow are proved by going through these paths.\<close>

lemma validate_args_cases:
  obtains
    (bad_parser) "parser a \<notin> set [''html5lib'', ''html.parser'', ''lxml'']"
      "validate_args e a = (parser_warning e a @ [LogError (InvalidParser (parser a))], Inl (SysExit 1))"
  | (bad_sections) "parser a \<in> set [''html5lib'', ''html.parser'', ''lxml'']"
      "sections_list (sections a) = None"
      "validate_args e a = (parser_warning e a @ [LogError InvalidSections], Inl (SysExit 1))"
  | (bad_formats) ns where "parser a \<in> set [''html5lib'', ''html.parser'', ''lxml'']"
      "sections_list (sections a) = Some ns"
      "format_list (formats a) = None \<or> format_list (skip_formats a) = None"
      "validate_args e a = (parser_warning e a, Inl AttributeError)"
  | (checked) ns fs ks where "parser a \<in> set [''html5lib'', ''html.parser'', ''lxml'']"
      "sections_list (sections a) = Some ns"
      "format_list (formats a) = Some fs"
      "format_list (skip_formats a) = Some ks"
      "validate_args e a =
         (parser_warning e a
            @ fst (credentials e (a\<lparr>sections := IntList ns, formats := StrList fs,
                                    skip_formats := StrList ks\<rparr>)),
          snd (credentials e (a\<lparr>sections := IntList ns, formats := StrList fs,
                                 skip_formats := StrList ks\<rparr>)))"
proof (cases "parser a \<in> set [''html5lib'', ''html.parser'', ''lxml'']")
  case False
  then show ?thesis using bad_parser unfolding validate_args_def by (simp del: set_simps)
next
  case p: True
  show ?thesis
  proof (cases "sections_list (sections a)")
    case None
    with p show ?thesis using bad_sections unfolding validate_args_def by (simp del: set_simps)
  next
    case s: (Some ns)
    show ?thesis
    proof (cases "format_list (formats a)")
      case None
      with p s show ?thesis using bad_formats[of ns] unfolding validate_args_def
        by (simp del: set_simps)
    next
      case f: (Some fs)
      show ?thesis
      proof (cases "format_list (skip_formats a)")
        case None
        with p s f show ?thesis using bad_formats[of ns] unfolding validate_args_def
          by (simp del: set_simps)
      next
        case (Some ks)
        with p s f show ?thesis using checked[of ns fs ks] unfolding validate_args_def
          by (simp del: set_simps add: case_prod_beta)
      qed
    qed
  qed
qed

lemma credentials_cases:
  obtains
    (cookies_found) c where "truthy (cookies a) = Some c" "path_exists e c"
      "credentials e a = ([PathExists c], Inr a)"
  | (cookies_missing) c where "truthy (cookies a) = Some c" "\<not> path_exists e c"
      "credentials e a = ([PathExists c, LogError (CookiesNotFound c)], Inl (SysExit 1))"
  | (netrc_missing) nf where "truthy (cookies a) = None" "netrc_arg (netrc a) = Some nf"
      "netrc_credentials e nf = None"
      "credentials e a = ([NetrcLookup nf, LogError NetrcNoCredentials], Inl (SysExit 1))"
  | (netrc_found) nf u p where "truthy (cookies a) = None" "netrc_arg (netrc a) = Some nf"
      "netrc_credentials e nf = Some (u, p)"
      "credentials e a =
         ([NetrcLookup nf, LogInfo NetrcFound], Inr (a\<lparr>username := Some u, password := Some p\<rparr>))"
  | (no_username) "truthy (cookies a) = None" "netrc_arg (netrc a) = None"
      "truthy (username a) = None"
      "credentials e a = ([LogError MissingUsername], Inl (SysExit 1))"
  | (password_given) u p where "truthy (cookies a) = None" "netrc_arg (netrc a) = None"
      "truthy (username a) = Some u" "truthy (password a) = Some p"
      "credentials e a = ([], Inr a)"
  | (prompted) u where "truthy (cookies a) = None" "netrc_arg (netrc a) = None"
      "truthy (username a) = Some u" "truthy (password a) = None"
      "credentials e a =
         ([GetPass (prompt u)], Inr (a\<lparr>password := Some (getpass e (prompt u))\<rparr>))"
proof (cases "truthy (cookies a)")
  case (Some c)
  then show ?thesis using cookies_found[of c] cookies_missing[of c]
    unfolding credentials_def by (cases "path_exists e c") simp_all
next
  case c: None
  show ?thesis
  proof (cases "netrc_arg (netrc a)")
    case (Some nf)
    with c show ?thesis using netrc_missing[of nf] netrc_found[of nf]
      unfolding credentials_def by (cases "netrc_credentials e nf") auto
  next
    case n: None
    show ?thesis
    proof (cases "truthy (username a)")
      case None
      with c n show ?thesis using no_username unfolding credentials_def by simp
    next
      case u: (Some u)
      show ?thesis
      proof (cases "truthy (password a)")
        case None
        with c n u show ?thesis using prompted[of u] unfolding credentials_def by simp
      next
        case (Some p)
        with c n u show ?thesis using password_given[of u p] unfolding credentials_def by simp
      qed
    qed
  qed
qed


lemma credentials_InrD:
  assumes "credentials e a = (tr, Inr b)"
  shows "b = a\<lparr>username := username b, password := password b\<rparr>"
  by (rule credentials_cases[where a=a and e=e]) (use assms in auto)

lemma validate_args_InrD:
  assumes "validate_args e a = (tr, Inr b)"
  obtains ns fs ks tr' where "parser a \<in> set [''html5lib'', ''html.parser'', ''lxml'']"
    "sections_list (sections a) = Some ns" "format_list (formats a) = Some fs"
    "format_list (skip_formats a) = Some ks"
    "credentials e (a\<lparr>sections := IntList ns, formats := StrList fs,
                       skip_formats := StrList ks\<rparr>) = (tr', Inr b)"
    "tr = parser_warning e a @ tr'"
  by (rule validate_args_cases[where a=a and e=e]) (use assms in \<open>auto simp del: set_simps simp: prod_eq_iff\<close>)


lemma run_example:
  "validate_args env_example args_example =
     ([GetPass ''Coursera password for alice: ''], Inr result_example)"
  by (simp add: validate_args_def credentials_def parser_warning_def args_example_def
      result_example_def default_args_def env_example_def py_split_def isspace_def
      py_int_def int_strip_def is_int_space_def max_str_digits_def unsigned_def digit_val_def lstrip_def prompt_def)

lemma on_result_id: "on_result (\<lambda>b. b) p = p"
  by (cases p; cases "snd p") auto

lemma on_result_append:
  "(case on_result g p of (tr, r) \<Rightarrow> (w @ tr, r)) = on_result g (case p of (tr, r) \<Rightarrow> (w @ tr, r))"
  by (cases p; cases "snd p") auto

lemma validate_args_lift:
  assumes "version_info e1 = version_info e2"
    and "parser a1 = parser a2" and "sections a1 = sections a2"
    and "formats a1 = formats a2" and "skip_formats a1 = skip_formats a2"
    and cr: "\<And>ns fs ks.
      credentials e1 (a1\<lparr>sections := IntList ns, formats := StrList fs, skip_formats := StrList ks\<rparr>)
      = on_result g (credentials e2 (a2\<lparr>sections := IntList ns, formats := StrList fs,
                                          skip_formats := StrList ks\<rparr>))"
  shows "validate_args e1 a1 = on_result g (validate_args e2 a2)"
proof -
  have pw: "parser_warning e1 a1 = parser_warning e2 a2"
    by (simp add: parser_warning_def assms(1,2))
  show ?thesis
    unfolding validate_args_def[of e1 a1] validate_args_def[of e2 a2] pw assms(2-5) cr
      on_result_append
    by (simp del: set_simps split: option.splits)
qed

lemma credentials_ignores:
  assumes "\<And>x. cookies (f x) = cookies x" "\<And>x. netrc (f x) = netrc x"
    "\<And>x. username (f x) = username x" "\<And>x. password (f x) = password x"
    "\<And>x u. f (x\<lparr>username := u\<rparr>) = (f x)\<lparr>username := u\<rparr>"
    "\<And>x u. f (x\<lparr>password := u\<rparr>) = (f x)\<lparr>password := u\<rparr>"
  shows "credentials e (f a) = on_result f (credentials e a)"
  by (rule credentials_cases[where a=a and e=e]) (simp_all add: credentials_def assms)

lemma validate_args_ignores:
  assumes "\<And>x. parser (f x) = parser x" "\<And>x. sections (f x) = sections x"
    "\<And>x. formats (f x) = formats x" "\<And>x. skip_formats (f x) = skip_formats x"
    "\<And>x. cookies (f x) = cookies x" "\<And>x. netrc (f x) = netrc x"
    "\<And>x. username (f x) = username x" "\<And>x. password (f x) = password x"
    "\<And>x u. f (x\<lparr>username := u\<rparr>) = (f x)\<lparr>username := u\<rparr>"
    "\<And>x u. f (x\<lparr>password := u\<rparr>) = (f x)\<lparr>password := u\<rparr>"
    "\<And>x u. f (x\<lparr>sections := u\<rparr>) = (f x)\<lparr>sections := u\<rparr>"
    "\<And>x u. f (x\<lparr>formats := u\<rparr>) = (f x)\<lparr>formats := u\<rparr>"
    "\<And>x u. f (x\<lparr>skip_formats := u\<rparr>) = (f x)\<lparr>skip_formats := u\<rparr>"
  shows "validate_args e (f a) = on_result f (validate_args e a)"
proof (rule validate_args_lift)
  fix ns fs ks
  have comm: "(f a)\<lparr>sections := IntList ns, formats := StrList fs, skip_formats := StrList ks\<rparr>
      = f (a\<lparr>sections := IntList ns, formats := StrList fs, skip_formats := StrList ks\<rparr>)"
    by (simp add: assms)
  show "credentials e ((f a)\<lparr>sections := IntList ns, formats := StrList fs,
                             skip_formats := StrList ks\<rparr>)
      = on_result f (credentials e (a\<lparr>sections := IntList ns, formats := StrList fs,
                                        skip_formats := StrList ks\<rparr>))"
    unfolding comm by (rule credentials_ignores) (simp_all add: assms)
qed (simp_all add: assms)

lemma credentials_cookies:
  assumes "truthy (cookies a) = Some c"
  shows "credentials e a =
     (if path_exists e c then ([PathExists c], Inr a)
      else ([PathExists c, LogError (CookiesNotFound c)], Inl (SysExit 1)))"
  by (simp add: credentials_def assms)

lemma validate_args_exit_status:
  assumes "validate_args e a = (tr, Inl err)"
  shows "exit_status err = 1"
proof (rule validate_args_cases[where a=a and e=e])
  fix ns fs ks
  assume v: "validate_args e a =
         (parser_warning e a
            @ fst (credentials e (a\<lparr>sections := IntList ns, formats := StrList fs,
                                    skip_formats := StrList ks\<rparr>)),
          snd (credentials e (a\<lparr>sections := IntList ns, formats := StrList fs,
                                 skip_formats := StrList ks\<rparr>)))"
  show ?thesis
    by (rule credentials_cases[where e=e and
          a="a\<lparr>sections := IntList ns, formats := StrList fs, skip_formats := StrList ks\<rparr>"])
       (use v assms in auto)
qed (use assms in auto)


lemma validate_args_checked:
  assumes "parser a \<in> set [''html5lib'', ''html.parser'', ''lxml'']"
    and "sections_list (sections a) = Some ns"
    and "format_list (formats a) = Some fs"
    and "format_list (skip_formats a) = Some ks"
  shows "validate_args e a =
     (parser_warning e a
        @ fst (credentials e (a\<lparr>sections := IntList ns, formats := StrList fs,
                                skip_formats := StrList ks\<rparr>)),
      snd (credentials e (a\<lparr>sections := IntList ns, formats := StrList fs,
                             skip_formats := StrList ks\<rparr>)))"
  unfolding validate_args_def using assms by (simp del: set_simps add: case_prod_beta)

lemma parser_warning_events:
  "ev \<in> set (parser_warning e a) \<Longrightarrow> ev = LogInfo HtmlParserWarning"
  by (simp add: parser_warning_def split: if_splits)

lemma args_example_checks:
  "parser args_example \<in> set [''html5lib'', ''html.parser'', ''lxml'']"
  "sections_list (sections args_example) = Some [1, 3, 8]"
  "format_list (formats args_example) = Some [''mp4'', ''pdf'', ''srt'']"
  "format_list (skip_formats args_example) = Some []"
  by (simp_all add: args_example_def default_args_def py_split_def isspace_def py_int_def
      int_strip_def is_int_space_def max_str_digits_def unsigned_def digit_val_def lstrip_def)

lemma parser_warning_example: "parser_warning env_example a = []"
  by (simp add: parser_warning_def env_example_def)

lemma credentials_no_username:
  assumes "truthy (cookies a) = None" "netrc_arg (netrc a) = None" "truthy (username a) = None"
  shows "credentials e a = ([LogError MissingUsername], Inl (SysExit 1))"
  by (simp add: credentials_def assms)

lemma credentials_empty_cookies:
  "credentials e (x\<lparr>cookies := Some []\<rparr>)
     = on_result (\<lambda>b. b\<lparr>cookies := Some []\<rparr>) (credentials e (x\<lparr>cookies := None\<rparr>))"
  by (simp add: credentials_def split: option.splits)

lemma credentials_empty_netrc:
  "credentials e (x\<lparr>netrc := NetrcFile []\<rparr>)
     = on_result (\<lambda>b. b\<lparr>netrc := NetrcFile []\<rparr>) (credentials e (x\<lparr>netrc := NetrcNone\<rparr>))"
  by (simp add: credentials_def split: option.splits)

lemma credentials_empty_username:
  "credentials e (x\<lparr>username := Some []\<rparr>)
     = on_result empty_username (credentials e (x\<lparr>username := None\<rparr>))"
  by (simp add: credentials_def empty_username_def split: option.splits)

lemma credentials_empty_password:
  "credentials e (x\<lparr>password := Some []\<rparr>)
     = on_result empty_password (credentials e (x\<lparr>password := None\<rparr>))"
  by (simp add: credentials_def empty_password_def split: option.splits)

lemma stage_commute:
  "a\<lparr>cookies := c, sections := s, formats := f, skip_formats := k\<rparr>
     = a\<lparr>sections := s, formats := f, skip_formats := k\<rparr>\<lparr>cookies := c\<rparr>"
  "a\<lparr>netrc := n, sections := s, formats := f, skip_formats := k\<rparr>
     = a\<lparr>sections := s, formats := f, skip_formats := k\<rparr>\<lparr>netrc := n\<rparr>"
  "a\<lparr>username := u, sections := s, formats := f, skip_formats := k\<rparr>
     = a\<lparr>sections := s, formats := f, skip_formats := k\<rparr>\<lparr>username := u\<rparr>"
  "a\<lparr>password := p, sections := s, formats := f, skip_formats := k\<rparr>
     = a\<lparr>sections := s, formats := f, skip_formats := k\<rparr>\<lparr>password := p\<rparr>"
  by simp_all

lemma validate_args_empty_cookies:
  "validate_args e (a\<lparr>cookies := Some []\<rparr>)
     = on_result (\<lambda>b. b\<lparr>cookies := Some []\<rparr>) (validate_args e (a\<lparr>cookies := None\<rparr>))"
  by (rule validate_args_lift) (simp_all only: stage_commute credentials_empty_cookies, simp_all)

lemma validate_args_empty_netrc:
  "validate_args e (a\<lparr>netrc := NetrcFile []\<rparr>)
     = on_result (\<lambda>b. b\<lparr>netrc := NetrcFile []\<rparr>) (validate_args e (a\<lparr>netrc := NetrcNone\<rparr>))"
  by (rule validate_args_lift) (simp_all only: stage_commute credentials_empty_netrc, simp_all)

lemma validate_args_empty_username:
  "validate_args e (a\<lparr>username := Some []\<rparr>)
     = on_result empty_username (validate_args e (a\<lparr>username := None\<rparr>))"
  by (rule validate_args_lift) (simp_all only: stage_commute credentials_empty_username, simp_all)

lemma validate_args_empty_password:
  "validate_args e (a\<lparr>password := Some []\<rparr>)
     = on_result empty_password (validate_args e (a\<lparr>password := None\<rparr>))"
  by (rule validate_args_lift) (simp_all only: stage_commute credentials_empty_password, simp_all)


lemma credentials_prompt:
  assumes "truthy (cookies x) = None" "netrc_arg (netrc x) = None" "truthy (username x) = Some u"
    "truthy (password x) = None"
  shows "credentials e x
     = ([GetPass (prompt u)], Inr (x\<lparr>password := Some (getpass e (prompt u))\<rparr>))"
  by (simp add: credentials_def assms)

lemma default_args_checks:
  "parser default_args \<in> set [''html5lib'', ''html.parser'', ''lxml'']"
  "sections_list (sections default_args) = Some []"
  "format_list (formats default_args) = Some []"
  "format_list (skip_formats default_args) = Some []"
  by (simp_all add: default_args_def py_split_def)

lemma ints_of_all:
  "list_all (\<lambda>t. py_int t \<noteq> None) ts \<Longrightarrow> ints_of ts = Some (map (\<lambda>t. the (py_int t)) ts)"
  by (induction ts) auto

lemma ints_of_SomeD:
  "ints_of ts = Some ns \<Longrightarrow>
     list_all (\<lambda>t. py_int t \<noteq> None) ts \<and> ns = map (\<lambda>t. the (py_int t)) ts"
proof (induction ts arbitrary: ns)
  case Nil
  then show ?case by simp
next
  case (Cons t ts)
  from Cons.prems obtain n ms where "py_int t = Some n" "ints_of ts = Some ms" "ns = n # ms"
    by (auto split: option.splits)
  with Cons.IH[of ms] show ?case by simp
qed

lemma ints_of_Some_iff:
  "ints_of ts = Some ns \<longleftrightarrow>
     list_all (\<lambda>t. py_int t \<noteq> None) ts \<and> ns = map (\<lambda>t. the (py_int t)) ts"
  using ints_of_all[of ts] ints_of_SomeD[of ts ns] by auto

lemma ints_of_None_iff: "ints_of ts = None \<longleftrightarrow> \<not> list_all (\<lambda>t. py_int t \<noteq> None) ts"
  using ints_of_Some_iff[of ts] by (cases "ints_of ts") auto

lemma sections_list_SomeD:
  assumes "sections_list v = Some ns"
  obtains s where "v = Str s" "ints_of (py_split s) = Some ns"
  using assms by (cases v) auto

lemma format_list_SomeD:
  assumes "format_list v = Some fs"
  obtains f where "v = Str f" "fs = map (lstrip ''.'') (py_split f)"
  using assms by (cases v) auto

lemma validate_args_compiled:
  assumes "validate_args e a = (tr, Inr b)"
  obtains s f k ns where "sections a = Str s" "formats a = Str f" "skip_formats a = Str k"
    "ints_of (py_split s) = Some ns" "sections b = IntList ns"
    "formats b = StrList (map (lstrip ''.'') (py_split f))"
    "skip_formats b = StrList (map (lstrip ''.'') (py_split k))"
    "parser b = parser a" "parser a \<in> set [''html5lib'', ''html.parser'', ''lxml'']"
proof -
  from assms obtain ns fs ks tr' where
    p: "parser a \<in> set [''html5lib'', ''html.parser'', ''lxml'']"
    and s: "sections_list (sections a) = Some ns"
    and f: "format_list (formats a) = Some fs"
    and k: "format_list (skip_formats a) = Some ks"
    and c: "credentials e (a\<lparr>sections := IntList ns, formats := StrList fs,
                               skip_formats := StrList ks\<rparr>) = (tr', Inr b)"
    by (rule validate_args_InrD)
  have eq: "b = a\<lparr>sections := IntList ns, formats := StrList fs, skip_formats := StrList ks,
                    username := username b, password := password b\<rparr>"
    using credentials_InrD[OF c] by simp
  have b: "sections b = IntList ns" "formats b = StrList fs" "skip_formats b = StrList ks"
    "parser b = parser a"
    by (subst eq, simp)+
  from s obtain s' where s': "sections a = Str s'" "ints_of (py_split s') = Some ns"
    by (rule sections_list_SomeD)
  from f obtain f' where f': "formats a = Str f'" "fs = map (lstrip ''.'') (py_split f')"
    by (rule format_list_SomeD)
  from k obtain k' where k': "skip_formats a = Str k'" "ks = map (lstrip ''.'') (py_split k')"
    by (rule format_list_SomeD)
  show thesis
    using that[of s' f' k' ns] s' f' k' b p by simp
qed

lemma tokens_example:
  "py_split ''1 3 8'' = [''1'', ''3'', ''8'']"
  "py_int ''1'' = Some 1" "py_int ''3'' = Some 3" "py_int ''8'' = Some 8"
  "py_split ''1 x'' = [''1'', ''x'']" "py_int ''x'' = None"
  by (simp_all add: py_split_def isspace_def py_int_def int_strip_def is_int_space_def max_str_digits_def unsigned_def digit_val_def)

lemma lstrip_dots: "\<exists>n. t = replicate n (CHR ''.'') @ lstrip ''.'' t"
proof (induction t)
  case Nil
  then show ?case by (simp add: lstrip_def)
next
  case (Cons c t)
  show ?case
  proof (cases "c = CHR ''.''")
    case True
    from Cons obtain n where "t = replicate n (CHR ''.'') @ lstrip ''.'' t" by blast
    then have "c # t = replicate (Suc n) (CHR ''.'') @ lstrip ''.'' (c # t)"
      using True by (simp add: lstrip_def)
    then show ?thesis by blast
  next
    case False
    then have "c # t = replicate 0 (CHR ''.'') @ lstrip ''.'' (c # t)"
      by (simp add: lstrip_def)
    then show ?thesis by blast
  qed
qed

lemma lstrip_no_dot: "lstrip ''.'' t \<noteq> CHR ''.'' # u"
proof
  assume "lstrip ''.'' t = CHR ''.'' # u"
  then have "dropWhile (\<lambda>c. c = CHR ''.'') t = CHR ''.'' # u" by (simp add: lstrip_def)
  then have "hd (dropWhile (\<lambda>c. c = CHR ''.'') t) = CHR ''.''"
    "dropWhile (\<lambda>c. c = CHR ''.'') t \<noteq> []" by simp_all
  with hd_dropWhile[of "\<lambda>c. c = CHR ''.''" t] show False by simp
qed

lemma run_cookies_and_netrc:
  "validate_args env_example cookies_and_netrc
     = ([PathExists ''cookies.txt''],
        Inr (cookies_and_netrc\<lparr>sections := IntList [1, 3, 8],
                               formats := StrList [''mp4'', ''pdf'', ''srt''],
                               skip_formats := StrList []\<rparr>))"
  by (simp add: validate_args_def credentials_def parser_warning_def cookies_and_netrc_def
      args_example_def default_args_def env_example_def py_split_def isspace_def
      py_int_def int_strip_def is_int_space_def max_str_digits_def unsigned_def digit_val_def lstrip_def)

section \<open>The tokens of a string\<close>

text \<open>\<open>py_split\<close> returns what \<open>str.split()\<close> returns: the tokens are not empty and
  hold no whitespace, and together they are the string without its whitespace.\<close>

lemma split_from_tokens:
  assumes "t \<in> set (split_from tok s)" and "list_all (\<lambda>c. \<not> isspace c) tok"
  shows "t \<noteq> [] \<and> list_all (\<lambda>c. \<not> isspace c) t"
  using assms
proof (induction s arbitrary: tok)
  case Nil
  then show ?case by (auto split: if_splits)
next
  case (Cons c s)
  show ?case
  proof (cases "isspace c")
    case True
    have nil: "list_all (\<lambda>c. \<not> isspace c) []" by simp
    from Cons.prems(1) True have "t \<in> set (split_from [] s) \<or> (tok \<noteq> [] \<and> t = tok)"
      by (auto split: if_splits)
    then show ?thesis using Cons.IH[OF _ nil] Cons.prems(2) by blast
  next
    case False
    with Cons.prems have "t \<in> set (split_from (tok @ [c]) s)"
      "list_all (\<lambda>c. \<not> isspace c) (tok @ [c])" by simp_all
    then show ?thesis by (rule Cons.IH)
  qed
qed

lemma py_split_tokens:
  assumes "t \<in> set (py_split s)"
  shows "t \<noteq> [] \<and> list_all (\<lambda>c. \<not> isspace c) t"
  using assms unfolding py_split_def by (rule split_from_tokens) simp

lemma concat_split_from:
  "concat (split_from tok s) = tok @ filter (\<lambda>c. \<not> isspace c) s"
  by (induction s arbitrary: tok) auto

lemma concat_py_split: "concat (py_split s) = filter (\<lambda>c. \<not> isspace c) s"
  by (simp add: py_split_def concat_split_from)

lemma validate_args_eq:
  "validate_args e a =
     (if parser a \<notin> set [''html5lib'', ''html.parser'', ''lxml''] then
        (parser_warning e a @ [LogError (InvalidParser (parser a))], Inl (SysExit 1))
      else if sections_list (sections a) = None then
        (parser_warning e a @ [LogError InvalidSections], Inl (SysExit 1))
      else if format_list (formats a) = None \<or> format_list (skip_formats a) = None then
        (parser_warning e a, Inl AttributeError)
      else
        (parser_warning e a @ fst (credentials e (compiled a)),
         snd (credentials e (compiled a))))"
  by (rule validate_args_cases[where a=a and e=e]) (auto simp del: set_simps simp: compiled_def)

lemma compiled_fields:
  "cookies (compiled a) = cookies a" "netrc (compiled a) = netrc a"
  "username (compiled a) = username a" "password (compiled a) = password a"
  by (simp_all add: compiled_def)



lemma unsigned_digit_limit:
  "max_str_digits < length (filter (\<lambda>x. digit_val x \<noteq> None) s) \<Longrightarrow> unsigned s = None"
  by (cases s) (auto simp: unsigned_def split: option.splits)

lemma py_int_separator: "py_int [CHR 0x1C, CHR ''5''] = None"
  by (simp add: py_int_def int_strip_def is_int_space_def unsigned_def digit_val_def)

section \<open>Frame of a successful validation\<close>

text \<open>
  Claim C9. On every successful run, \<open>validate_args\<close> changes at most the fields
  \<open>sections\<close>, \<open>formats\<close>, \<open>skip_formats\<close>, \<open>username\<close> and \<open>password\<close> of the
  argument record: the record it returns is the record it was given with these five fields
  overwritten, so every other field is returned exactly as parsed.
\<close>

theorem validate_args_frame:
  assumes "validate_args e a = (tr, Inr b)"
  shows "b = a\<lparr>sections := sections b, formats := formats b, skip_formats := skip_formats b,
               username := username b, password := password b\<rparr>"
proof -
  from assms obtain ns fs ks tr' where
    c: "credentials e (a\<lparr>sections := IntList ns, formats := StrList fs,
                          skip_formats := StrList ks\<rparr>) = (tr', Inr b)"
    by (rule validate_args_InrD)
  have eq: "b = a\<lparr>sections := IntList ns, formats := StrList fs, skip_formats := StrList ks,
                    username := username b, password := password b\<rparr>"
    using credentials_InrD[OF c] by simp
  have s: "sections b = IntList ns" by (subst eq) simp
  have f: "formats b = StrList fs" by (subst eq) simp
  have k: "skip_formats b = StrList ks" by (subst eq) simp
  show ?thesis unfolding s f k by (rule eq)
qed

theorem validate_args_frame_witness:
  "validate_args env_example args_example
     = ([GetPass ''Coursera password for alice: ''], Inr result_example)
   \<and> result_example
     = args_example\<lparr>sections := sections result_example, formats := formats result_example,
                    skip_formats := skip_formats result_example,
                    username := username result_example,
                    password := password result_example\<rparr>"
  using validate_args_frame[OF run_example] run_example by simp

section \<open>Options that \<open>validate_args\<close> does not read\<close>

text \<open>
  Claim C3, as the code has it. \<open>validate_args\<close> does not look at the four download
  backends: whatever \<open>--wget\<close>, \<open>--curl\<close>, \<open>--aria2\<close> and \<open>--axel\<close> are set to, the
  run logs the same events and ends the same way as the run without them, and a successful
  run returns the four fields as they were given. Selecting two or more backends is no
  validation error.
\<close>

theorem validate_args_ignores_backends:
  "validate_args e (a\<lparr>wget := w, curl := c, aria2 := r, axel := x\<rparr>)
     = on_result (\<lambda>b. b\<lparr>wget := w, curl := c, aria2 := r, axel := x\<rparr>) (validate_args e a)"
  by (rule validate_args_ignores[where f="\<lambda>b. b\<lparr>wget := w, curl := c, aria2 := r, axel := x\<rparr>"])
     simp_all

theorem validate_args_ignores_backends_witness:
  "validate_args env_example
     (args_example\<lparr>wget := Some ''wget'', curl := Some ''curl'', aria2 := None, axel := None\<rparr>)
   = ([GetPass ''Coursera password for alice: ''],
      Inr (result_example\<lparr>wget := Some ''wget'', curl := Some ''curl'', aria2 := None,
                            axel := None\<rparr>))"
  using validate_args_ignores_backends[where e=env_example and a=args_example
      and w="Some ''wget''" and c="Some ''curl''" and r=None and x=None]
  by (simp add: run_example)

text \<open>The claim as the specification states it fails for \<open>--wget --curl\<close>: the run is
  accepted and \<open>main\<close> ends with status 0.\<close>

theorem two_backends_accepted:
  "parse_args [''ml-001''] [Username ''alice'', Password ''pw'', Wget None, Curl None]
     = Inr two_backends
   \<and> wget two_backends = Some ''wget'' \<and> curl two_backends = Some ''curl''
   \<and> validate_args env_example two_backends = ([], Inr (empty_lists two_backends))
   \<and> main env_example [''ml-001''] [Username ''alice'', Password ''pw'', Wget None, Curl None]
     = ([LogInfo (Banner ''html5lib'')], 0)"
proof -
  have p: "parse_args [''ml-001''] [Username ''alice'', Password ''pw'', Wget None, Curl None]
     = Inr two_backends"
    by (simp add: parse_args_def two_backends_def args_password_def)
  have v: "validate_args env_example two_backends = ([], Inr (empty_lists two_backends))"
    by (simp add: validate_args_def credentials_def parser_warning_def two_backends_def
        args_password_def default_args_def env_example_def py_split_def empty_lists_def)
  have m: "main env_example [''ml-001''] [Username ''alice'', Password ''pw'', Wget None, Curl None]
     = ([LogInfo (Banner ''html5lib'')], 0)"
    by (simp add: main_def p v)
       (simp add: two_backends_def args_password_def default_args_def empty_lists_def)
  from p v m show ?thesis by (simp add: two_backends_def)
qed

text \<open>
  Claim C6, as the code has it. \<open>validate_args\<close> does not check \<open>max_filename_length\<close>:
  whatever its value, the run logs the same events and ends the same way, and a successful
  run returns the value as it was given. A run with \<open>--max-filename-length 0\<close> passes
  whenever the same run with the default 100 passes.
\<close>

theorem validate_args_ignores_max_filename_length:
  "validate_args e (a\<lparr>max_filename_length := n\<rparr>)
     = on_result (\<lambda>b. b\<lparr>max_filename_length := n\<rparr>) (validate_args e a)"
  by (rule validate_args_ignores[where f="\<lambda>b. b\<lparr>max_filename_length := n\<rparr>"]) simp_all

theorem validate_args_ignores_max_filename_length_witness:
  "max_filename_length args_example = 100
   \<and> validate_args env_example (args_example\<lparr>max_filename_length := 0\<rparr>)
     = ([GetPass ''Coursera password for alice: ''],
        Inr (result_example\<lparr>max_filename_length := 0\<rparr>))"
  using validate_args_ignores_max_filename_length[where e=env_example and a=args_example
      and n=0]
  by (simp add: run_example) (simp add: args_example_def default_args_def)

theorem zero_length_accepted:
  "parse_args [''ml-001''] [Username ''alice'', Password ''pw'', MaxFilenameLength ''0'']
     = Inr zero_length
   \<and> max_filename_length zero_length = 0
   \<and> validate_args env_example zero_length = ([], Inr (empty_lists zero_length))
   \<and> main env_example [''ml-001''] [Username ''alice'', Password ''pw'', MaxFilenameLength ''0'']
     = ([LogInfo (Banner ''html5lib'')], 0)"
proof -
  have i: "py_int ''0'' = Some 0"
    by (simp add: py_int_def int_strip_def is_int_space_def max_str_digits_def isspace_def unsigned_def digit_val_def)
  have p: "parse_args [''ml-001''] [Username ''alice'', Password ''pw'', MaxFilenameLength ''0'']
     = Inr zero_length"
    by (simp add: parse_args_def zero_length_def args_password_def i)
  have v: "validate_args env_example zero_length = ([], Inr (empty_lists zero_length))"
    by (simp add: validate_args_def credentials_def parser_warning_def zero_length_def
        args_password_def default_args_def env_example_def py_split_def empty_lists_def)
  have m: "main env_example [''ml-001'']
      [Username ''alice'', Password ''pw'', MaxFilenameLength ''0'']
     = ([LogInfo (Banner ''html5lib'')], 0)"
    by (simp add: main_def p v)
       (simp add: zero_length_def args_password_def default_args_def empty_lists_def)
  from p v m show ?thesis by (simp add: zero_length_def)
qed

text \<open>
  Claim C7, as the code has it. \<open>validate_args\<close> neither compiles nor reads the three
  filter options: whatever \<open>--section-filter\<close>, \<open>--lecture-filter\<close> and
  \<open>--resource-filter\<close> are set to, the run logs the same events and ends the same way,
  and a successful run returns the three fields as they were given; an absent filter stays
  absent. No pattern makes validation fail.
\<close>

theorem validate_args_ignores_filters:
  "validate_args e (a\<lparr>section_filter := s, lecture_filter := l, resource_filter := r\<rparr>)
     = on_result (\<lambda>b. b\<lparr>section_filter := s, lecture_filter := l, resource_filter := r\<rparr>)
         (validate_args e a)"
  by (rule validate_args_ignores[where
        f="\<lambda>b. b\<lparr>section_filter := s, lecture_filter := l, resource_filter := r\<rparr>"])
     simp_all

theorem validate_args_ignores_filters_witness:
  "validate_args env_example
     (args_example\<lparr>section_filter := Some ''('', lecture_filter := Some ''[a-'',
                    resource_filter := None\<rparr>)
   = ([GetPass ''Coursera password for alice: ''],
      Inr (result_example\<lparr>section_filter := Some ''('', lecture_filter := Some ''[a-'',
                            resource_filter := None\<rparr>))"
  using validate_args_ignores_filters[where e=env_example and a=args_example
      and s="Some ''(''" and l="Some ''[a-''" and r=None]
  by (simp add: run_example)

text \<open>The pattern \<open>(\<close> is one that Python's \<open>re.compile\<close> rejects; the run with
  \<open>--section-filter "("\<close> is accepted all the same.\<close>

theorem open_paren_filter_accepted:
  "parse_args [''ml-001''] [Username ''alice'', Password ''pw'', SectionFilter ''('']
     = Inr open_paren_filter
   \<and> section_filter open_paren_filter = Some ''(''
   \<and> validate_args env_example open_paren_filter = ([], Inr (empty_lists open_paren_filter))
   \<and> main env_example [''ml-001''] [Username ''alice'', Password ''pw'', SectionFilter ''('']
     = ([LogInfo (Banner ''html5lib'')], 0)"
proof -
  have p: "parse_args [''ml-001''] [Username ''alice'', Password ''pw'', SectionFilter ''('']
     = Inr open_paren_filter"
    by (simp add: parse_args_def open_paren_filter_def args_password_def)
  have v: "validate_args env_example open_paren_filter
     = ([], Inr (empty_lists open_paren_filter))"
    by (simp add: validate_args_def credentials_def parser_warning_def open_paren_filter_def
        args_password_def default_args_def env_example_def py_split_def empty_lists_def)
  have m: "main env_example [''ml-001''] [Username ''alice'', Password ''pw'', SectionFilter ''('']
     = ([LogInfo (Banner ''html5lib'')], 0)"
    by (simp add: main_def p v)
       (simp add: open_paren_filter_def args_password_def default_args_def empty_lists_def)
  from p v m show ?thesis by (simp add: open_paren_filter_def)
qed

section \<open>Credentials\<close>

text \<open>
  Claim C1, as the code has it. On every run with a non-empty \<open>--cookies\<close> value (the
  option is tested for truth, so the empty string counts as not set), \<open>validate_args\<close>
  resolves no user name and no password: it neither calls \<open>netrc_credentials\<close> nor
  prompts, its outcome does not depend on what the netrc file or the operator would answer
  (also when \<open>--netrc\<close> is set), and a successful run returns \<open>username\<close> and
  \<open>password\<close> as given and only happens when the cookies path exists. The credentials
  block succeeds if the path exists and otherwise logs "Cookies file not found" and exits
  with status 1. The last conjunct gives the whole run: stopped by an unknown parser name,
  else by a sections list that is no list of integers, else by \<open>formats\<close> or
  \<open>skip_formats\<close> that are no strings, else decided by the cookies path.
\<close>

theorem cookies_short_circuit:
  assumes "truthy (cookies a) = Some c"
  shows "NetrcLookup nf \<notin> set (fst (validate_args e a))
    \<and> GetPass q \<notin> set (fst (validate_args e a))
    \<and> validate_args (e\<lparr>netrc_credentials := n, getpass := g\<rparr>) a = validate_args e a
    \<and> (validate_args e a = (tr, Inr b) \<longrightarrow>
          path_exists e c \<and> username b = username a \<and> password b = password a)
    \<and> (\<not> path_exists e c \<longrightarrow>
          (\<exists>tr' err. validate_args e a = (tr', Inl err) \<and> exit_status err = 1))
    \<and> (parser a \<in> set [''html5lib'', ''html.parser'', ''lxml'']
          \<and> sections_list (sections a) = Some ns
          \<and> format_list (formats a) = Some fs
          \<and> format_list (skip_formats a) = Some ks \<longrightarrow>
          validate_args e a =
            (if path_exists e c then
               (parser_warning e a @ [PathExists c],
                Inr (a\<lparr>sections := IntList ns, formats := StrList fs,
                       skip_formats := StrList ks\<rparr>))
             else
               (parser_warning e a @ [PathExists c, LogError (CookiesNotFound c)],
                Inl (SysExit 1))))
    \<and> credentials e a =
        (if path_exists e c then ([PathExists c], Inr a)
         else ([PathExists c, LogError (CookiesNotFound c)], Inl (SysExit 1)))
    \<and> validate_args e a =
         (if parser a \<notin> set [''html5lib'', ''html.parser'', ''lxml''] then
            (parser_warning e a @ [LogError (InvalidParser (parser a))], Inl (SysExit 1))
          else if sections_list (sections a) = None then
            (parser_warning e a @ [LogError InvalidSections], Inl (SysExit 1))
          else if format_list (formats a) = None \<or> format_list (skip_formats a) = None then
            (parser_warning e a, Inl AttributeError)
          else if path_exists e c then
            (parser_warning e a @ [PathExists c], Inr (compiled a))
          else
            (parser_warning e a @ [PathExists c, LogError (CookiesNotFound c)],
             Inl (SysExit 1)))"
proof -
  have cr: "credentials e' (a\<lparr>sections := IntList ns', formats := StrList fs',
                               skip_formats := StrList ks'\<rparr>) =
     (if path_exists e' c
      then ([PathExists c], Inr (a\<lparr>sections := IntList ns', formats := StrList fs',
                                    skip_formats := StrList ks'\<rparr>))
      else ([PathExists c, LogError (CookiesNotFound c)], Inl (SysExit 1)))" for e' ns' fs' ks'
    by (rule credentials_cookies) (simp add: assms)
  have events: "ev \<in> set (fst (validate_args e a)) \<Longrightarrow>
      ev = LogInfo HtmlParserWarning \<or> ev = LogError (InvalidParser (parser a))
      \<or> ev = LogError InvalidSections \<or> ev = PathExists c
      \<or> ev = LogError (CookiesNotFound c)" for ev
    by (rule validate_args_cases[where a=a and e=e])
       (auto simp: cr dest: parser_warning_events split: if_splits)
  have 1: "NetrcLookup nf \<notin> set (fst (validate_args e a))"
    using events[of "NetrcLookup nf"] by auto
  have 2: "GetPass q \<notin> set (fst (validate_args e a))"
    using events[of "GetPass q"] by auto
  have 3: "validate_args (e\<lparr>netrc_credentials := n, getpass := g\<rparr>) a = validate_args e a"
    using validate_args_lift[where ?e1.0="e\<lparr>netrc_credentials := n, getpass := g\<rparr>" and ?e2.0=e
        and ?a1.0=a and ?a2.0=a and g="\<lambda>b. b"]
    by (simp add: cr on_result_id)
  have 4: "path_exists e c \<and> username b = username a \<and> password b = password a"
    if "validate_args e a = (tr, Inr b)"
    by (rule validate_args_cases[where a=a and e=e])
       (use that in \<open>auto simp: cr split: if_splits\<close>)
  have 5: "\<exists>tr' err. validate_args e a = (tr', Inl err) \<and> exit_status err = 1"
    if "\<not> path_exists e c"
    by (rule validate_args_cases[where a=a and e=e]) (use that in \<open>auto simp: cr\<close>)
  have 6: "validate_args e a =
            (if path_exists e c then
               (parser_warning e a @ [PathExists c],
                Inr (a\<lparr>sections := IntList ns, formats := StrList fs,
                       skip_formats := StrList ks\<rparr>))
             else
               (parser_warning e a @ [PathExists c, LogError (CookiesNotFound c)],
                Inl (SysExit 1)))"
    if "parser a \<in> set [''html5lib'', ''html.parser'', ''lxml'']"
      "sections_list (sections a) = Some ns" "format_list (formats a) = Some fs"
      "format_list (skip_formats a) = Some ks"
    unfolding validate_args_checked[OF that] cr by simp
  have 7: "credentials e a =
        (if path_exists e c then ([PathExists c], Inr a)
         else ([PathExists c, LogError (CookiesNotFound c)], Inl (SysExit 1)))"
    using assms by (rule credentials_cookies)
  have "credentials e (compiled a) =
        (if path_exists e c then ([PathExists c], Inr (compiled a))
         else ([PathExists c, LogError (CookiesNotFound c)], Inl (SysExit 1)))"
    by (rule credentials_cookies) (simp add: compiled_fields assms)
  then have 8: "validate_args e a =
         (if parser a \<notin> set [''html5lib'', ''html.parser'', ''lxml''] then
            (parser_warning e a @ [LogError (InvalidParser (parser a))], Inl (SysExit 1))
          else if sections_list (sections a) = None then
            (parser_warning e a @ [LogError InvalidSections], Inl (SysExit 1))
          else if format_list (formats a) = None \<or> format_list (skip_formats a) = None then
            (parser_warning e a, Inl AttributeError)
          else if path_exists e c then
            (parser_warning e a @ [PathExists c], Inr (compiled a))
          else
            (parser_warning e a @ [PathExists c, LogError (CookiesNotFound c)],
             Inl (SysExit 1)))"
    by (simp add: validate_args_eq[of e a] del: set_simps)
  from 1 2 3 4 5 6 have "NetrcLookup nf \<notin> set (fst (validate_args e a))
    \<and> GetPass q \<notin> set (fst (validate_args e a))
    \<and> validate_args (e\<lparr>netrc_credentials := n, getpass := g\<rparr>) a = validate_args e a
    \<and> (validate_args e a = (tr, Inr b) \<longrightarrow>
          path_exists e c \<and> username b = username a \<and> password b = password a)
    \<and> (\<not> path_exists e c \<longrightarrow>
          (\<exists>tr' err. validate_args e a = (tr', Inl err) \<and> exit_status err = 1))
    \<and> (parser a \<in> set [''html5lib'', ''html.parser'', ''lxml'']
          \<and> sections_list (sections a) = Some ns
          \<and> format_list (formats a) = Some fs
          \<and> format_list (skip_formats a) = Some ks \<longrightarrow>
          validate_args e a =
            (if path_exists e c then
               (parser_warning e a @ [PathExists c],
                Inr (a\<lparr>sections := IntList ns, formats := StrList fs,
                       skip_formats := StrList ks\<rparr>))
             else
               (parser_warning e a @ [PathExists c, LogError (CookiesNotFound c)],
                Inl (SysExit 1))))"
    by blast
  with 7 8 show ?thesis by (intro conjI) (elim conjE, assumption)+
qed

theorem cookies_short_circuit_witness:
  "truthy (cookies cookies_and_netrc) = Some ''cookies.txt''
   \<and> netrc cookies_and_netrc = NetrcTrue
   \<and> netrc_credentials env_example None = Some (''bob'', ''hunter2'')
   \<and> path_exists env_example ''cookies.txt''
   \<and> validate_args env_example cookies_and_netrc
       = ([PathExists ''cookies.txt''],
          Inr (cookies_and_netrc\<lparr>sections := IntList [1, 3, 8],
                                 formats := StrList [''mp4'', ''pdf'', ''srt''],
                                 skip_formats := StrList []\<rparr>))
   \<and> NetrcLookup None \<notin> set (fst (validate_args env_example cookies_and_netrc))
   \<and> truthy (cookies missing_cookies) = Some ''missing.txt''
   \<and> \<not> path_exists env_example ''missing.txt''
   \<and> validate_args env_example missing_cookies
       = ([PathExists ''missing.txt'', LogError (CookiesNotFound ''missing.txt'')],
          Inl (SysExit 1))"
proof -
  have c1: "truthy (cookies cookies_and_netrc) = Some ''cookies.txt''"
    by (simp add: cookies_and_netrc_def)
  have c2: "truthy (cookies missing_cookies) = Some ''missing.txt''"
    by (simp add: missing_cookies_def)
  have k1: "parser cookies_and_netrc \<in> set [''html5lib'', ''html.parser'', ''lxml'']
      \<and> sections_list (sections cookies_and_netrc) = Some [1, 3, 8]
      \<and> format_list (formats cookies_and_netrc) = Some [''mp4'', ''pdf'', ''srt'']
      \<and> format_list (skip_formats cookies_and_netrc) = Some []"
    using args_example_checks by (simp add: cookies_and_netrc_def)
  have k2: "parser missing_cookies \<in> set [''html5lib'', ''html.parser'', ''lxml'']
      \<and> sections_list (sections missing_cookies) = Some [1, 3, 8]
      \<and> format_list (formats missing_cookies) = Some [''mp4'', ''pdf'', ''srt'']
      \<and> format_list (skip_formats missing_cookies) = Some []"
    using args_example_checks by (simp add: missing_cookies_def)
  have p: "path_exists env_example ''cookies.txt''" "\<not> path_exists env_example ''missing.txt''"
    "netrc_credentials env_example None = Some (''bob'', ''hunter2'')"
    by (simp_all add: env_example_def)
  have n: "netrc cookies_and_netrc = NetrcTrue" by (simp add: cookies_and_netrc_def)
  have v1: "validate_args env_example cookies_and_netrc
       = ([PathExists ''cookies.txt''],
          Inr (cookies_and_netrc\<lparr>sections := IntList [1, 3, 8],
                                 formats := StrList [''mp4'', ''pdf'', ''srt''],
                                 skip_formats := StrList []\<rparr>))"
    using cookies_short_circuit[OF c1, where e=env_example and ns="[1, 3, 8]"
        and fs="[''mp4'', ''pdf'', ''srt'']" and ks="[]"] k1 p
    by (simp add: parser_warning_example del: set_simps)
  have v2: "validate_args env_example missing_cookies
       = ([PathExists ''missing.txt'', LogError (CookiesNotFound ''missing.txt'')],
          Inl (SysExit 1))"
    using cookies_short_circuit[OF c2, where e=env_example and ns="[1, 3, 8]"
        and fs="[''mp4'', ''pdf'', ''srt'']" and ks="[]"] k2 p
    by (simp add: parser_warning_example del: set_simps)
  show ?thesis using c1 c2 p n v1 v2 by simp
qed

text \<open>With \<open>--cookies ""\<close> the option is set and its path does not exist, yet the netrc
  file is consulted and the run succeeds.\<close>

theorem empty_cookies_consult_netrc:
  "parse_args [] [Cookies [], Netrc None] = Inr empty_cookies_netrc
   \<and> cookies empty_cookies_netrc = Some []
   \<and> \<not> path_exists env_example []
   \<and> validate_args env_example empty_cookies_netrc
       = ([NetrcLookup None, LogInfo NetrcFound],
          Inr (empty_lists empty_cookies_netrc\<lparr>username := Some ''bob'',
                                                password := Some ''hunter2''\<rparr>))"
  by (simp add: parse_args_def empty_cookies_netrc_def validate_args_def credentials_def
      parser_warning_def env_example_def default_args_def py_split_def empty_lists_def)

text \<open>
  Claim C5. On every run with neither \<open>--username\<close> nor \<open>--netrc\<close> nor \<open>--cookies\<close>
  set (or set to the empty string), \<open>validate_args\<close> fails with exit status 1 and never
  prompts for a password: the credentials block logs the diagnostic that names the missing
  user name and exits. The last conjunct gives the whole run: stopped by an unknown parser
  name, else by a sections list that is no list of integers, else by \<open>formats\<close> or
  \<open>skip_formats\<close> that are no strings, and else ended by the missing-username
  diagnostic.
\<close>

theorem missing_username:
  assumes "truthy (cookies a) = None" and "netrc_arg (netrc a) = None"
    and "truthy (username a) = None"
  shows "GetPass q \<notin> set (fst (validate_args e a))
    \<and> (\<exists>tr err. validate_args e a = (tr, Inl err) \<and> exit_status err = 1)
    \<and> (parser a \<in> set [''html5lib'', ''html.parser'', ''lxml'']
          \<and> sections_list (sections a) = Some ns
          \<and> format_list (formats a) = Some fs
          \<and> format_list (skip_formats a) = Some ks \<longrightarrow>
          validate_args e a = (parser_warning e a @ [LogError MissingUsername], Inl (SysExit 1)))
    \<and> credentials e a = ([LogError MissingUsername], Inl (SysExit 1))
    \<and> validate_args e a =
         (if parser a \<notin> set [''html5lib'', ''html.parser'', ''lxml''] then
            (parser_warning e a @ [LogError (InvalidParser (parser a))], Inl (SysExit 1))
          else if sections_list (sections a) = None then
            (parser_warning e a @ [LogError InvalidSections], Inl (SysExit 1))
          else if format_list (formats a) = None \<or> format_list (skip_formats a) = None then
            (parser_warning e a, Inl AttributeError)
          else (parser_warning e a @ [LogError MissingUsername], Inl (SysExit 1)))"
proof -
  have cr: "credentials e (a\<lparr>sections := IntList ns', formats := StrList fs',
                              skip_formats := StrList ks'\<rparr>)
      = ([LogError MissingUsername], Inl (SysExit 1))" for ns' fs' ks'
    by (rule credentials_no_username) (simp_all add: assms)
  have 1: "GetPass q \<notin> set (fst (validate_args e a))"
    by (rule validate_args_cases[where a=a and e=e])
       (auto simp: cr dest: parser_warning_events)
  have 2: "\<exists>tr err. validate_args e a = (tr, Inl err) \<and> exit_status err = 1"
    by (rule validate_args_cases[where a=a and e=e]) (auto simp: cr)
  have 3: "validate_args e a = (parser_warning e a @ [LogError MissingUsername], Inl (SysExit 1))"
    if "parser a \<in> set [''html5lib'', ''html.parser'', ''lxml'']"
      "sections_list (sections a) = Some ns" "format_list (formats a) = Some fs"
      "format_list (skip_formats a) = Some ks"
    unfolding validate_args_checked[OF that] cr by simp
  have 4: "credentials e a = ([LogError MissingUsername], Inl (SysExit 1))"
    using assms by (rule credentials_no_username)
  have "credentials e (compiled a) = ([LogError MissingUsername], Inl (SysExit 1))"
    by (rule credentials_no_username) (simp_all add: compiled_fields assms)
  then have 5: "validate_args e a =
         (if parser a \<notin> set [''html5lib'', ''html.parser'', ''lxml''] then
            (parser_warning e a @ [LogError (InvalidParser (parser a))], Inl (SysExit 1))
          else if sections_list (sections a) = None then
            (parser_warning e a @ [LogError InvalidSections], Inl (SysExit 1))
          else if format_list (formats a) = None \<or> format_list (skip_formats a) = None then
            (parser_warning e a, Inl AttributeError)
          else (parser_warning e a @ [LogError MissingUsername], Inl (SysExit 1)))"
    by (simp add: validate_args_eq[of e a] del: set_simps)
  from 1 2 3 have "GetPass q \<notin> set (fst (validate_args e a))
    \<and> (\<exists>tr err. validate_args e a = (tr, Inl err) \<and> exit_status err = 1)
    \<and> (parser a \<in> set [''html5lib'', ''html.parser'', ''lxml'']
          \<and> sections_list (sections a) = Some ns
          \<and> format_list (formats a) = Some fs
          \<and> format_list (skip_formats a) = Some ks \<longrightarrow>
          validate_args e a = (parser_warning e a @ [LogError MissingUsername], Inl (SysExit 1)))"
    by blast
  with 4 5 show ?thesis by (intro conjI) (elim conjE, assumption)+
qed

theorem missing_username_witness:
  "truthy (cookies default_args) = None \<and> netrc_arg (netrc default_args) = None
   \<and> truthy (username default_args) = None
   \<and> validate_args env_example default_args = ([LogError MissingUsername], Inl (SysExit 1))
   \<and> GetPass ''Coursera password for : '' \<notin> set (fst (validate_args env_example default_args))
   \<and> truthy (cookies no_credentials_bogus) = None
   \<and> netrc_arg (netrc no_credentials_bogus) = None
   \<and> truthy (username no_credentials_bogus) = None
   \<and> validate_args env_example no_credentials_bogus
       = ([LogError (InvalidParser ''bogus'')], Inl (SysExit 1))"
proof -
  have h: "truthy (cookies default_args) = None" "netrc_arg (netrc default_args) = None"
    "truthy (username default_args) = None"
    by (simp_all add: default_args_def)
  have g: "truthy (cookies no_credentials_bogus) = None"
    "netrc_arg (netrc no_credentials_bogus) = None"
    "truthy (username no_credentials_bogus) = None"
    by (simp_all add: no_credentials_bogus_def default_args_def)
  have k: "parser default_args \<in> set [''html5lib'', ''html.parser'', ''lxml'']
      \<and> sections_list (sections default_args) = Some []
      \<and> format_list (formats default_args) = Some []
      \<and> format_list (skip_formats default_args) = Some []"
    by (simp add: default_args_def py_split_def)
  have v: "validate_args env_example default_args = ([LogError MissingUsername], Inl (SysExit 1))"
    using missing_username[OF h, where e=env_example and ns="[]" and fs="[]" and ks="[]"] k
    by (simp add: parser_warning_example del: set_simps)
  have b: "parser no_credentials_bogus \<notin> set [''html5lib'', ''html.parser'', ''lxml'']"
    "parser no_credentials_bogus = ''bogus''"
    by (simp_all add: no_credentials_bogus_def)
  have "validate_args env_example no_credentials_bogus
       = ([LogError (InvalidParser (parser no_credentials_bogus))], Inl (SysExit 1))"
    using missing_username[OF g, where e=env_example, unfolded parser_warning_example append_Nil]
      b(1)
    by (simp del: set_simps)
  then have u: "validate_args env_example no_credentials_bogus
       = ([LogError (InvalidParser ''bogus'')], Inl (SysExit 1))"
    by (simp only: b(2))
  show ?thesis using h g v u by simp
qed

text \<open>
  Claim C10. Credential options given as empty strings behave exactly as if absent: for
  each of \<open>--cookies\<close>, \<open>--netrc\<close>, \<open>--username\<close> and \<open>--password\<close> the run with
  the empty string logs the same events and ends the same way as the run without the
  option, and a successful run returns the same record up to the field itself. In
  particular, with no netrc and no cookies, the credentials block fails with the
  missing-username diagnostic on \<open>--username ""\<close>, so the run is never accepted; and on
  a user name with \<open>--password ""\<close> it prompts for the password and returns what the
  operator typed.
\<close>

theorem empty_string_as_absent:
  "validate_args e (a\<lparr>cookies := Some []\<rparr>)
     = on_result (\<lambda>b. b\<lparr>cookies := Some []\<rparr>) (validate_args e (a\<lparr>cookies := None\<rparr>))
   \<and> validate_args e (a\<lparr>netrc := NetrcFile []\<rparr>)
     = on_result (\<lambda>b. b\<lparr>netrc := NetrcFile []\<rparr>) (validate_args e (a\<lparr>netrc := NetrcNone\<rparr>))
   \<and> validate_args e (a\<lparr>username := Some []\<rparr>)
     = on_result empty_username (validate_args e (a\<lparr>username := None\<rparr>))
   \<and> validate_args e (a\<lparr>password := Some []\<rparr>)
     = on_result empty_password (validate_args e (a\<lparr>password := None\<rparr>))
   \<and> (truthy (cookies a) = None \<and> netrc_arg (netrc a) = None \<longrightarrow>
        (\<exists>tr err. validate_args e (a\<lparr>username := Some []\<rparr>) = (tr, Inl err)
            \<and> exit_status err = 1))
   \<and> (truthy (cookies a) = None \<and> netrc_arg (netrc a) = None
        \<and> parser a \<in> set [''html5lib'', ''html.parser'', ''lxml'']
        \<and> sections_list (sections a) = Some ns
        \<and> format_list (formats a) = Some fs
        \<and> format_list (skip_formats a) = Some ks \<longrightarrow>
        validate_args e (a\<lparr>username := Some []\<rparr>)
          = (parser_warning e a @ [LogError MissingUsername], Inl (SysExit 1)))
   \<and> (truthy (cookies a) = None \<and> netrc_arg (netrc a) = None
        \<and> truthy (username a) = Some u
        \<and> parser a \<in> set [''html5lib'', ''html.parser'', ''lxml'']
        \<and> sections_list (sections a) = Some ns
        \<and> format_list (formats a) = Some fs
        \<and> format_list (skip_formats a) = Some ks \<longrightarrow>
        validate_args e (a\<lparr>password := Some []\<rparr>)
          = (parser_warning e a @ [GetPass (prompt u)],
             Inr (a\<lparr>sections := IntList ns, formats := StrList fs,
                    skip_formats := StrList ks,
                    password := Some (getpass e (prompt u))\<rparr>)))
   \<and> (truthy (cookies a) = None \<and> netrc_arg (netrc a) = None \<longrightarrow>
        credentials e (a\<lparr>username := Some []\<rparr>)
          = ([LogError MissingUsername], Inl (SysExit 1)))
   \<and> (truthy (cookies a) = None \<and> netrc_arg (netrc a) = None
        \<and> truthy (username a) = Some u \<longrightarrow>
        credentials e (a\<lparr>password := Some []\<rparr>)
          = ([GetPass (prompt u)],
             Inr (a\<lparr>password := Some (getpass e (prompt u))\<rparr>)))"
proof -
  have 5: "\<exists>tr err. validate_args e (a\<lparr>username := Some []\<rparr>) = (tr, Inl err)
      \<and> exit_status err = 1"
    if "truthy (cookies a) = None" "netrc_arg (netrc a) = None"
  proof -
    have cr: "credentials e (a\<lparr>username := Some [], sections := IntList ns',
                 formats := StrList fs', skip_formats := StrList ks'\<rparr>)
        = ([LogError MissingUsername], Inl (SysExit 1))" for ns' fs' ks'
      by (rule credentials_no_username) (simp_all add: that)
    show ?thesis
      by (rule validate_args_cases[where a="a\<lparr>username := Some []\<rparr>" and e=e])
         (auto simp: cr)
  qed
  have 6: "validate_args e (a\<lparr>username := Some []\<rparr>)
          = (parser_warning e a @ [LogError MissingUsername], Inl (SysExit 1))"
    if "truthy (cookies a) = None" "netrc_arg (netrc a) = None"
      "parser a \<in> set [''html5lib'', ''html.parser'', ''lxml'']"
      "sections_list (sections a) = Some ns" "format_list (formats a) = Some fs"
      "format_list (skip_formats a) = Some ks"
  proof -
    have cr: "credentials e (a\<lparr>username := Some [], sections := IntList ns,
                 formats := StrList fs, skip_formats := StrList ks\<rparr>)
        = ([LogError MissingUsername], Inl (SysExit 1))"
      by (rule credentials_no_username) (simp_all add: that)
    have "validate_args e (a\<lparr>username := Some []\<rparr>)
        = (parser_warning e (a\<lparr>username := Some []\<rparr>) @ [LogError MissingUsername],
           Inl (SysExit 1))"
      using validate_args_checked[where a="a\<lparr>username := Some []\<rparr>" and e=e and ns=ns
          and fs=fs and ks=ks] that
      by (simp add: cr del: set_simps)
    then show ?thesis by (simp add: parser_warning_def)
  qed
  have 7: "validate_args e (a\<lparr>password := Some []\<rparr>)
          = (parser_warning e a @ [GetPass (prompt u)],
             Inr (a\<lparr>sections := IntList ns, formats := StrList fs,
                    skip_formats := StrList ks,
                    password := Some (getpass e (prompt u))\<rparr>))"
    if "truthy (cookies a) = None" "netrc_arg (netrc a) = None" "truthy (username a) = Some u"
      "parser a \<in> set [''html5lib'', ''html.parser'', ''lxml'']"
      "sections_list (sections a) = Some ns" "format_list (formats a) = Some fs"
      "format_list (skip_formats a) = Some ks"
  proof -
    have cr: "credentials e (a\<lparr>password := Some [], sections := IntList ns,
                 formats := StrList fs, skip_formats := StrList ks\<rparr>)
        = ([GetPass (prompt u)],
           Inr (a\<lparr>password := Some [], sections := IntList ns,
                 formats := StrList fs, skip_formats := StrList ks\<rparr>
                 \<lparr>password := Some (getpass e (prompt u))\<rparr>))"
      by (rule credentials_prompt) (simp_all add: that)
    have "validate_args e (a\<lparr>password := Some []\<rparr>)
        = (parser_warning e (a\<lparr>password := Some []\<rparr>) @ [GetPass (prompt u)],
           Inr (a\<lparr>password := Some [], sections := IntList ns,
                 formats := StrList fs, skip_formats := StrList ks\<rparr>
                 \<lparr>password := Some (getpass e (prompt u))\<rparr>))"
      using validate_args_checked[where a="a\<lparr>password := Some []\<rparr>" and e=e and ns=ns
          and fs=fs and ks=ks] that
      by (simp add: cr del: set_simps)
    then show ?thesis by (simp add: parser_warning_def)
  qed
  have 8: "credentials e (a\<lparr>username := Some []\<rparr>)
          = ([LogError MissingUsername], Inl (SysExit 1))"
    if "truthy (cookies a) = None" "netrc_arg (netrc a) = None"
    by (rule credentials_no_username) (simp_all add: that)
  have 9: "credentials e (a\<lparr>password := Some []\<rparr>)
          = ([GetPass (prompt u)], Inr (a\<lparr>password := Some (getpass e (prompt u))\<rparr>))"
    if "truthy (cookies a) = None" "netrc_arg (netrc a) = None" "truthy (username a) = Some u"
    using credentials_prompt[where x="a\<lparr>password := Some []\<rparr>" and u=u and e=e] that
    by simp
  from validate_args_empty_cookies validate_args_empty_netrc validate_args_empty_username
    validate_args_empty_password 5 6 7 8 9
  show ?thesis by blast
qed

theorem empty_string_as_absent_witness:
  "validate_args env_example (default_args\<lparr>username := Some []\<rparr>)
     = ([LogError MissingUsername], Inl (SysExit 1))
   \<and> validate_args env_example (default_args\<lparr>username := None\<rparr>)
     = ([LogError MissingUsername], Inl (SysExit 1))
   \<and> validate_args env_example (args_example\<lparr>password := Some []\<rparr>)
     = ([GetPass ''Coursera password for alice: ''], Inr result_example)
   \<and> validate_args env_example (args_example\<lparr>password := None\<rparr>)
     = ([GetPass ''Coursera password for alice: ''], Inr result_example)"
proof -
  have d: "truthy (cookies default_args) = None" "netrc_arg (netrc default_args) = None"
    by (simp_all add: default_args_def)
  have x: "truthy (cookies args_example) = None" "netrc_arg (netrc args_example) = None"
    "truthy (username args_example) = Some ''alice''"
    by (simp_all add: args_example_def default_args_def)
  note w1 = empty_string_as_absent[where e=env_example and a=default_args and ns="[]"
      and fs="[]" and ks="[]", unfolded parser_warning_example append_Nil]
  note w2 = empty_string_as_absent[where e=env_example and a=args_example and ns="[1, 3, 8]"
      and fs="[''mp4'', ''pdf'', ''srt'']" and ks="[]" and u="''alice''",
      unfolded parser_warning_example append_Nil]
  have 1: "validate_args env_example (default_args\<lparr>username := Some []\<rparr>)
     = ([LogError MissingUsername], Inl (SysExit 1))"
    using w1 d default_args_checks by blast
  have "validate_args env_example (args_example\<lparr>password := Some []\<rparr>)
     = ([GetPass (prompt ''alice'')],
        Inr (args_example\<lparr>sections := IntList [1, 3, 8],
               formats := StrList [''mp4'', ''pdf'', ''srt''], skip_formats := StrList [],
               password := Some (getpass env_example (prompt ''alice''))\<rparr>))"
    using w2 x args_example_checks by blast
  then have 2: "validate_args env_example (args_example\<lparr>password := Some []\<rparr>)
     = ([GetPass ''Coursera password for alice: ''], Inr result_example)"
    by (simp add: result_example_def prompt_def env_example_def)
  have 3: "default_args\<lparr>username := None\<rparr> = default_args"
    "args_example\<lparr>password := None\<rparr> = args_example"
    by (simp_all add: args_example_def default_args_def)
  have 4: "validate_args env_example default_args = ([LogError MissingUsername], Inl (SysExit 1))"
    by (simp add: validate_args_def credentials_def parser_warning_def env_example_def
        default_args_def py_split_def)
  show ?thesis unfolding 3 using 1 2 4 run_example by simp
qed

section \<open>Sections and formats\<close>

text \<open>
  Claim C2, as the code has it. For a sections string all of whose whitespace-separated
  tokens convert with \<open>int\<close>, the sections check passes and every successful validation
  returns, in \<open>sections\<close>, the list of the tokens' integers in the order of the tokens,
  duplicates kept (so the set of its elements is the set of the tokens' values). For a
  string with a token that does not convert, validation fails with \<open>sys.exit(1)\<close> and
  returns no record at all; when the parser name is known, the failure is the one that logs
  "Invalid sections list".
\<close>

theorem sections_compiled:
  assumes "sections a = Str s"
  shows "(validate_args e a = (tr, Inr b) \<longrightarrow>
            list_all (\<lambda>t. py_int t \<noteq> None) (py_split s)
            \<and> sections b = IntList (map (\<lambda>t. the (py_int t)) (py_split s)))
    \<and> (\<not> list_all (\<lambda>t. py_int t \<noteq> None) (py_split s) \<longrightarrow>
            (\<exists>tr'. validate_args e a = (tr', Inl (SysExit 1))))
    \<and> (\<not> list_all (\<lambda>t. py_int t \<noteq> None) (py_split s)
          \<and> parser a \<in> set [''html5lib'', ''html.parser'', ''lxml''] \<longrightarrow>
            validate_args e a = (parser_warning e a @ [LogError InvalidSections], Inl (SysExit 1)))
    \<and> (list_all (\<lambda>t. py_int t \<noteq> None) (py_split s)
          \<and> parser a \<in> set [''html5lib'', ''html.parser'', ''lxml'']
          \<and> format_list (formats a) = Some fs
          \<and> format_list (skip_formats a) = Some ks \<longrightarrow>
            validate_args e a =
              (parser_warning e a
                 @ fst (credentials e
                     (a\<lparr>sections := IntList (map (\<lambda>t. the (py_int t)) (py_split s)),
                        formats := StrList fs, skip_formats := StrList ks\<rparr>)),
               snd (credentials e
                     (a\<lparr>sections := IntList (map (\<lambda>t. the (py_int t)) (py_split s)),
                        formats := StrList fs, skip_formats := StrList ks\<rparr>))))"
proof -
  have 1: "list_all (\<lambda>t. py_int t \<noteq> None) (py_split s)
            \<and> sections b = IntList (map (\<lambda>t. the (py_int t)) (py_split s))"
    if "validate_args e a = (tr, Inr b)"
  proof -
    from that obtain s' ns where "sections a = Str s'" "ints_of (py_split s') = Some ns"
      "sections b = IntList ns"
      by (rule validate_args_compiled)
    with assms show ?thesis by (simp add: ints_of_Some_iff)
  qed
  have bad: "sections_list (sections a) = None"
    if "\<not> list_all (\<lambda>t. py_int t \<noteq> None) (py_split s)"
    using that assms by (simp add: ints_of_None_iff)
  have 3: "validate_args e a = (parser_warning e a @ [LogError InvalidSections], Inl (SysExit 1))"
    if "\<not> list_all (\<lambda>t. py_int t \<noteq> None) (py_split s)"
      "parser a \<in> set [''html5lib'', ''html.parser'', ''lxml'']"
    unfolding validate_args_def using bad[OF that(1)] that(2) by (simp del: set_simps)
  have 2: "\<exists>tr'. validate_args e a = (tr', Inl (SysExit 1))"
    if "\<not> list_all (\<lambda>t. py_int t \<noteq> None) (py_split s)"
  proof (cases "parser a \<in> set [''html5lib'', ''html.parser'', ''lxml'']")
    case True
    with 3[OF that] show ?thesis by blast
  next
    case False
    then show ?thesis unfolding validate_args_def by (simp del: set_simps)
  qed
  have 4: "validate_args e a =
              (parser_warning e a
                 @ fst (credentials e
                     (a\<lparr>sections := IntList (map (\<lambda>t. the (py_int t)) (py_split s)),
                        formats := StrList fs, skip_formats := StrList ks\<rparr>)),
               snd (credentials e
                     (a\<lparr>sections := IntList (map (\<lambda>t. the (py_int t)) (py_split s)),
                        formats := StrList fs, skip_formats := StrList ks\<rparr>)))"
    if "list_all (\<lambda>t. py_int t \<noteq> None) (py_split s)"
      "parser a \<in> set [''html5lib'', ''html.parser'', ''lxml'']"
      "format_list (formats a) = Some fs" "format_list (skip_formats a) = Some ks"
  proof -
    have "sections_list (sections a) = Some (map (\<lambda>t. the (py_int t)) (py_split s))"
      using that(1) assms by (simp add: ints_of_Some_iff)
    from validate_args_checked[OF that(2) this that(3,4)] show ?thesis .
  qed
  from 1 2 3 4 show ?thesis by blast
qed


theorem sections_compiled_witness:
  "sections args_example = Str ''1 3 8''
   \<and> py_split ''1 3 8'' = [''1'', ''3'', ''8'']
   \<and> list_all (\<lambda>t. py_int t \<noteq> None) (py_split ''1 3 8'')
   \<and> validate_args env_example args_example
       = ([GetPass ''Coursera password for alice: ''], Inr result_example)
   \<and> sections result_example = IntList [1, 3, 8]
   \<and> sections (args_example\<lparr>sections := Str ''1 x''\<rparr>) = Str ''1 x''
   \<and> \<not> list_all (\<lambda>t. py_int t \<noteq> None) (py_split ''1 x'')
   \<and> validate_args env_example (args_example\<lparr>sections := Str ''1 x''\<rparr>)
       = ([LogError InvalidSections], Inl (SysExit 1))"
proof -
  have a: "sections args_example = Str ''1 3 8''"
    by (simp add: args_example_def)
  have b: "sections (args_example\<lparr>sections := Str ''1 x''\<rparr>) = Str ''1 x''"
    by simp
  have p: "parser (args_example\<lparr>sections := Str ''1 x''\<rparr>)
      \<in> set [''html5lib'', ''html.parser'', ''lxml'']"
    using args_example_checks(1) by simp
  have g: "list_all (\<lambda>t. py_int t \<noteq> None) (py_split ''1 3 8'')"
    "\<not> list_all (\<lambda>t. py_int t \<noteq> None) (py_split ''1 x'')"
    by (simp_all add: tokens_example)
  have 1: "sections result_example = IntList (map (\<lambda>t. the (py_int t)) (py_split ''1 3 8''))"
    using sections_compiled[OF a, where e=env_example and tr="[GetPass ''Coursera password for alice: '']"
        and b=result_example] run_example
    by blast
  have 2: "validate_args env_example (args_example\<lparr>sections := Str ''1 x''\<rparr>)
       = ([LogError InvalidSections], Inl (SysExit 1))"
    using sections_compiled[OF b, where e=env_example, unfolded parser_warning_example append_Nil]
      g(2) p
    by blast
  show ?thesis using a g 1 2 run_example by (simp add: tokens_example)
qed

text \<open>Duplicates are not collapsed: \<open>--sections "1 1"\<close> yields the list \<open>[1, 1]\<close>.
  And a well-formed sections string yields nothing on a run that fails later, here for want
  of a user name.\<close>

theorem duplicate_sections_kept:
  "parse_args [''ml-001''] [Username ''alice'', Password ''pw'', Sections ''1 1'']
     = Inr duplicate_sections
   \<and> sections duplicate_sections = Str ''1 1''
   \<and> validate_args env_example duplicate_sections
       = ([], Inr (duplicate_sections\<lparr>sections := IntList [1, 1], formats := StrList [],
                                     skip_formats := StrList []\<rparr>))
   \<and> \<not> distinct [1, 1 :: int]
   \<and> sections lists_no_username = Str ''1 3 8''
   \<and> ints_of (py_split ''1 3 8'') = Some [1, 3, 8]
   \<and> validate_args env_example lists_no_username
       = ([LogError MissingUsername], Inl (SysExit 1))"
proof -
  have 1: "parse_args [''ml-001''] [Username ''alice'', Password ''pw'', Sections ''1 1'']
     = Inr duplicate_sections
   \<and> sections duplicate_sections = Str ''1 1''
   \<and> validate_args env_example duplicate_sections
       = ([], Inr (duplicate_sections\<lparr>sections := IntList [1, 1], formats := StrList [],
                                     skip_formats := StrList []\<rparr>))"
    by (simp add: parse_args_def duplicate_sections_def args_password_def validate_args_def
        credentials_def parser_warning_def env_example_def default_args_def py_split_def
        isspace_def py_int_def int_strip_def is_int_space_def max_str_digits_def unsigned_def digit_val_def)
  have 2: "sections lists_no_username = Str ''1 3 8''
   \<and> ints_of (py_split ''1 3 8'') = Some [1, 3, 8]
   \<and> validate_args env_example lists_no_username
       = ([LogError MissingUsername], Inl (SysExit 1))"
    by (simp add: lists_no_username_def validate_args_def credentials_def parser_warning_def
        env_example_def default_args_def py_split_def isspace_def py_int_def int_strip_def is_int_space_def max_str_digits_def
        unsigned_def digit_val_def)
  from 1 2 show ?thesis by simp
qed

text \<open>What a successful validation returns for \<open>--formats\<close> and for
  \<open>--skip-formats\<close> alike: the list of the whitespace-separated tokens of the string, in
  order, each without its leading dots. \<open>lstrip('.')\<close> removes every leading dot, so a
  token is some dots followed by its result, and the result never starts with a dot.\<close>

lemma formats_compiled:
  assumes "validate_args e a = (tr, Inr b)" and "formats a = Str f" and "skip_formats a = Str k"
  shows "formats b = StrList (map (lstrip ''.'') (py_split f))
    \<and> skip_formats b = StrList (map (lstrip ''.'') (py_split k))
    \<and> (\<exists>n. t = replicate n (CHR ''.'') @ lstrip ''.'' t)
    \<and> lstrip ''.'' t \<noteq> CHR ''.'' # u
    \<and> lstrip ''.'' (replicate n (CHR ''.'') @ lstrip ''.'' t) = lstrip ''.'' t"
proof -
  from assms(1) obtain f' k' where "formats a = Str f'" "skip_formats a = Str k'"
    "formats b = StrList (map (lstrip ''.'') (py_split f'))"
    "skip_formats b = StrList (map (lstrip ''.'') (py_split k'))"
    by (rule validate_args_compiled)
  with assms(2,3) have 1: "formats b = StrList (map (lstrip ''.'') (py_split f))"
    "skip_formats b = StrList (map (lstrip ''.'') (py_split k))" by simp_all
  have 2: "lstrip ''.'' (replicate n (CHR ''.'') @ lstrip ''.'' t) = lstrip ''.'' t"
    using lstrip_no_dot[of t] by (cases "lstrip ''.'' t") (auto simp: lstrip_def dropWhile_append)
  from 1 2 lstrip_dots[of t] lstrip_no_dot[of t u] show ?thesis by blast
qed


lemma formats_compiled_example:
  "validate_args env_example args_example
     = ([GetPass ''Coursera password for alice: ''], Inr result_example)
   \<and> formats args_example = Str ''mp4 .pdf srt'' \<and> skip_formats args_example = Str []
   \<and> py_split ''mp4 .pdf srt'' = [''mp4'', ''.pdf'', ''srt'']
   \<and> formats result_example = StrList [''mp4'', ''pdf'', ''srt'']
   \<and> skip_formats result_example = StrList []"
proof -
  have a: "formats args_example = Str ''mp4 .pdf srt''" "skip_formats args_example = Str []"
    by (simp_all add: args_example_def default_args_def)
  have t: "py_split ''mp4 .pdf srt'' = [''mp4'', ''.pdf'', ''srt'']" "py_split [] = []"
    by (simp_all add: py_split_def isspace_def)
  have "formats result_example = StrList (map (lstrip ''.'') (py_split ''mp4 .pdf srt''))
    \<and> skip_formats result_example = StrList (map (lstrip ''.'') (py_split []))"
    using formats_compiled[OF run_example a] by blast
  then show ?thesis using a t run_example by (simp add: lstrip_def)
qed

text \<open>On a token with at most one leading dot the code does what the specification asks.\<close>

lemma lstrip_one_dot:
  assumes "\<And>u. t \<noteq> CHR ''.'' # CHR ''.'' # u"
  shows "lstrip ''.'' t = spec_strip_one_dot t"
proof (cases t)
  case Nil
  then show ?thesis by (simp add: lstrip_def)
next
  case (Cons c cs)
  show ?thesis
  proof (cases "c = CHR ''.''")
    case True
    with Cons assms have "cs = [] \<or> hd cs \<noteq> CHR ''.''" by (cases cs) auto
    with Cons True show ?thesis by (cases cs) (auto simp: lstrip_def)
  next
    case False
    with Cons show ?thesis by (simp add: lstrip_def)
  qed
qed

text \<open>
  Claim C4. The specification, like the comment in the source ("remove prefixing dot if
  there is one"), has each token keep its text minus at most one leading dot, so that a
  token with two leading dots keeps one. The code does not: on \<open>--formats "..pdf"\<close> the
  validation succeeds and returns the token \<open>pdf\<close>, where removing one dot gives
  \<open>.pdf\<close>.
\<close>

theorem double_dot_stripped:
  "parse_args [''ml-001''] [Username ''alice'', Password ''pw'', Formats ''..pdf'']
     = Inr double_dot
   \<and> formats double_dot = Str ''..pdf''
   \<and> py_split ''..pdf'' = [''..pdf'']
   \<and> validate_args env_example double_dot
       = ([], Inr (double_dot\<lparr>sections := IntList [], formats := StrList [''pdf''],
                             skip_formats := StrList []\<rparr>))
   \<and> map spec_strip_one_dot (py_split ''..pdf'') = [''.pdf'']
   \<and> ''pdf'' \<noteq> ''.pdf''"
  by (simp add: parse_args_def double_dot_def args_password_def validate_args_def
      credentials_def parser_warning_def env_example_def default_args_def py_split_def
      isspace_def lstrip_def)

text \<open>
  Claim C8, as the code has it. Compiling twice from the same raw strings yields equal
  results: two successful validations whose \<open>sections\<close>, \<open>formats\<close> and
  \<open>skip_formats\<close> strings agree return the same three lists, whatever the environment
  and the other options are. \<open>validate_args\<close> cannot be applied again to the record it
  returned: \<open>sections\<close> is then a list, which has no \<open>split\<close>, and the second
  validation fails with "Invalid sections list" and exit status 1.
\<close>

theorem compile_repeatable_not_reappliable:
  assumes "validate_args e a = (tr, Inr b)"
  shows "(sections a' = sections a \<and> formats a' = formats a \<and> skip_formats a' = skip_formats a
            \<and> validate_args e' a' = (tr', Inr b') \<longrightarrow>
          sections b' = sections b \<and> formats b' = formats b \<and> skip_formats b' = skip_formats b)
    \<and> validate_args e' b = (parser_warning e' b @ [LogError InvalidSections], Inl (SysExit 1))"
proof -
  from assms obtain s f k ns where a: "sections a = Str s" "formats a = Str f"
    "skip_formats a = Str k" "ints_of (py_split s) = Some ns"
    and b: "sections b = IntList ns" "formats b = StrList (map (lstrip ''.'') (py_split f))"
    "skip_formats b = StrList (map (lstrip ''.'') (py_split k))"
    and p: "parser b = parser a" "parser a \<in> set [''html5lib'', ''html.parser'', ''lxml'']"
    by (rule validate_args_compiled)
  have 1: "sections b' = sections b \<and> formats b' = formats b \<and> skip_formats b' = skip_formats b"
    if "sections a' = sections a" "formats a' = formats a" "skip_formats a' = skip_formats a"
      "validate_args e' a' = (tr', Inr b')"
  proof -
    from that(4) obtain s' f' k' ns' where "sections a' = Str s'" "formats a' = Str f'"
      "skip_formats a' = Str k'" "ints_of (py_split s') = Some ns'"
      "sections b' = IntList ns'" "formats b' = StrList (map (lstrip ''.'') (py_split f'))"
      "skip_formats b' = StrList (map (lstrip ''.'') (py_split k'))"
      by (rule validate_args_compiled)
    with that(1-3) a b show ?thesis by simp
  qed
  have 2: "validate_args e' b = (parser_warning e' b @ [LogError InvalidSections], Inl (SysExit 1))"
    unfolding validate_args_def using p b(1) by (simp del: set_simps)
  from 1 2 show ?thesis by blast
qed

theorem compile_repeatable_not_reappliable_witness:
  "validate_args env_example args_example
     = ([GetPass ''Coursera password for alice: ''], Inr result_example)
   \<and> sections cookies_and_netrc = sections args_example
   \<and> formats cookies_and_netrc = formats args_example
   \<and> skip_formats cookies_and_netrc = skip_formats args_example
   \<and> validate_args env_example cookies_and_netrc
       = ([PathExists ''cookies.txt''],
          Inr (cookies_and_netrc\<lparr>sections := IntList [1, 3, 8],
                                 formats := StrList [''mp4'', ''pdf'', ''srt''],
                                 skip_formats := StrList []\<rparr>))
   \<and> sections result_example = IntList [1, 3, 8]
   \<and> formats result_example = StrList [''mp4'', ''pdf'', ''srt'']
   \<and> skip_formats result_example = StrList []
   \<and> validate_args env_example result_example = ([LogError InvalidSections], Inl (SysExit 1))"
proof -
  have same: "sections cookies_and_netrc = sections args_example"
    "formats cookies_and_netrc = formats args_example"
    "skip_formats cookies_and_netrc = skip_formats args_example"
    by (simp_all add: cookies_and_netrc_def)
  note w = compile_repeatable_not_reappliable[OF run_example, where e'=env_example
      and a'=cookies_and_netrc and tr'="[PathExists ''cookies.txt'']"
      and b'="cookies_and_netrc\<lparr>sections := IntList [1, 3, 8],
                                 formats := StrList [''mp4'', ''pdf'', ''srt''],
                                 skip_formats := StrList []\<rparr>",
      unfolded parser_warning_example append_Nil]
  have 1: "sections result_example = IntList [1, 3, 8]
    \<and> formats result_example = StrList [''mp4'', ''pdf'', ''srt'']
    \<and> skip_formats result_example = StrList []"
    using w same run_cookies_and_netrc by simp
  have 2: "validate_args env_example result_example
      = ([LogError InvalidSections], Inl (SysExit 1))"
    using w by blast
  show ?thesis using same 1 2 run_example run_cookies_and_netrc by simp
qed

text \<open>Validating the result of the example run again fails.\<close>

theorem revalidation_fails:
  "validate_args env_example args_example
     = ([GetPass ''Coursera password for alice: ''], Inr result_example)
   \<and> validate_args env_example result_example = ([LogError InvalidSections], Inl (SysExit 1))"
proof -
  have "validate_args env_example result_example = ([LogError InvalidSections], Inl (SysExit 1))"
    by (simp add: validate_args_def parser_warning_def result_example_def args_example_def
        default_args_def env_example_def)
  with run_example show ?thesis by simp
qed

end
